theory Spec2Isabelle
  imports Main
begin

section \<open>Lazy IR code generation\<close>

text \<open>
  A model of \<^verbatim>\<open>tools/codegen/dest/lazy_ir.py\<close>.  The generator maps a typed operator
  schema to C++ text.  Strings are \<open>char list\<close>; a Python exception is a value
  \<open>Inl e\<close> of the result type \<open>error + 'a\<close>.
\<close>

subsection \<open>Python helpers\<close>

text \<open>\<^verbatim>\<open>sep.join(xs)\<close> on a list of strings.\<close>

fun join :: "string \<Rightarrow> string list \<Rightarrow> string" where
  "join sep [] = []"
| "join sep [x] = x"
| "join sep (x # y # ys) = x @ sep @ join sep (y # ys)"

text \<open>
  \<^verbatim>\<open>sep.join(xs)\<close> on a list that may hold \<^verbatim>\<open>None\<close>: Python raises TypeError
  as soon as one item is not a string, so the result is \<open>None\<close> here.
\<close>

definition join_opt :: "string \<Rightarrow> string option list \<Rightarrow> string option" where
  "join_opt sep xs = (if None \<in> set xs then None else Some (join sep (map the xs)))"

text \<open>\<^verbatim>\<open>str(n)\<close> and \<^verbatim>\<open>f"{n}"\<close> for a non-negative integer (a \<^verbatim>\<open>len(...)\<close> or a \<^verbatim>\<open>range\<close> index).\<close>

definition digit_char :: "nat \<Rightarrow> char" where
  "digit_char d = ''0123456789'' ! d"

function str_nat :: "nat \<Rightarrow> string" where
  "str_nat n = (if n < 10 then [digit_char n] else str_nat (n div 10) @ [digit_char (n mod 10)])"
  by pat_completeness auto
termination
  by (relation "measure id") auto

declare str_nat.simps [simp del]

text \<open>Reading a decimal numeral back; used to state what an emitted bound denotes.\<close>

definition digit_val :: "char \<Rightarrow> nat" where
  "digit_val c = of_char c - 48"

definition dec_val :: "string \<Rightarrow> nat" where
  "dec_val s = foldl (\<lambda>acc c. 10 * acc + digit_val c) 0 s"

text \<open>
  Names of arguments and operators come from a parsed schema: they are identifiers, made of
  letters, digits and underscores.  The predicate is a hypothesis where a property of the
  emitted text depends on it.
\<close>

definition identifier_char :: "char \<Rightarrow> bool" where
  "identifier_char c =
     (c \<in> set ''abcdefghijklmnopqrstuvwxyzABCDEFGHIJKLMNOPQRSTUVWXYZ0123456789_'')"

definition is_identifier :: "string \<Rightarrow> bool" where
  "is_identifier s = list_all identifier_char s"

subsection \<open>Data model\<close>

text \<open>
  The C++ type descriptors of \<^verbatim>\<open>tools.codegen.api.types\<close> that the generator inspects with
  \<^verbatim>\<open>isinstance\<close>.  \<open>BaseCType\<close> carries the printed form of its base C++ type;
  \<open>OtherCType\<close> stands for an instance of any other descriptor class (none of the three
  named ones), carrying its class name.
\<close>

datatype CType =
    is_BaseCType: BaseCType string
  | is_OptionalCType: OptionalCType CType
  | is_VectorCType: VectorCType CType
  | OtherCType string

record NamedCType =
  name :: string
  type :: CType

text \<open>
  Modelled from the spec: class \<^verbatim>\<open>LazyIrSchema\<close> (tools.codegen.api.lazy) and the function
  schema it is built from are not part of the sources at hand.  The record is the spec's
  Schema View: the derived node class name, the operator name, its base name, the in-place
  flag, the ordered typed arguments, the names of the scalars promoted to graph values and
  the ordered return types.  \<^verbatim>\<open>LazyIrSchema(f.func)\<close> is the field \<open>func\<close> below.
\<close>

record LazyIrSchema =
  node_name :: string
  aten_name :: string
  base_name :: string
  inplace :: bool
  all_types :: "NamedCType list"
  wrapped_scalar_names :: "string list"
  returns :: "string list"

record NativeFunction =
  func :: LazyIrSchema
  structured :: bool
  structured_delegate :: "string option"

record NativeFunctionsGroup =
  functional :: NativeFunction

text \<open>\<^verbatim>\<open>Union[NativeFunctionsGroup, NativeFunction]\<close>\<close>

datatype NativeFunctionOrGroup = Group NativeFunctionsGroup | Single NativeFunction

type_synonym BackendIndex = string

text \<open>
  The collaborators that live outside the file are parameters of the model:
  \<^item> \<open>isValueType\<close>: \<^verbatim>\<open>tools.codegen.api.lazy.isValueType\<close>, the test "is tracked by the graph";
  \<^item> \<open>cpp_type\<close>: \<^verbatim>\<open>NamedCType.cpp_type()\<close>;
  \<^item> \<open>ts_lowering_body\<close>: the body text of the lowering method;
  \<^item> \<open>kernel_signature_decl\<close>: \<^verbatim>\<open>kernel_signature(f, backend_index).decl(name=...)\<close>;
  \<^item> \<open>dispatcher_arguments\<close>: \<^verbatim>\<open>[a.decl() for a in dispatcher.arguments(f.func)]\<close>.
  The decorator \<^verbatim>\<open>method_with_native_function\<close> only adds context to error messages and is
  left out.
\<close>

record externals =
  isValueType :: "CType \<Rightarrow> bool"
  cpp_type :: "NamedCType \<Rightarrow> string"
  ts_lowering_body :: "NativeFunctionOrGroup \<Rightarrow> string"
  kernel_signature_decl :: "NativeFunction \<Rightarrow> BackendIndex \<Rightarrow> string \<Rightarrow> string"
  dispatcher_arguments :: "LazyIrSchema \<Rightarrow> string list"

text \<open>
  Modelled from the spec: \<^verbatim>\<open>LazyIrSchema.filtered_types\<close> is not part of the sources at hand.
  \<^verbatim>\<open>filtered_types()\<close> is the field \<open>all_types\<close>; with \<^verbatim>\<open>values=True, scalars=False\<close> it is the
  ordered sublist of the arguments flagged as graph values, with \<^verbatim>\<open>values=False, scalars=True\<close>
  the ordered sublist of the others, so that the two partition \<open>all_types\<close>.
\<close>

definition value_types :: "externals \<Rightarrow> LazyIrSchema \<Rightarrow> NamedCType list" where
  "value_types ext schema = filter (\<lambda>t. isValueType ext (type t)) (all_types schema)"

definition scalar_types :: "externals \<Rightarrow> LazyIrSchema \<Rightarrow> NamedCType list" where
  "scalar_types ext schema = filter (\<lambda>t. \<not> isValueType ext (type t)) (all_types schema)"

text \<open>The exceptions the generator raises, one constructor per raising site.\<close>

datatype error =
    UnhandledValueType
      \<comment> \<open>\<^verbatim>\<open>AssertionError("TODO not sure if there are other valid types to handle here")\<close>\<close>
  | NoTensorArguments
      \<comment> \<open>\<^verbatim>\<open>assert len(value_types) > 0\<close>, "Only supporting tensor ops so far"\<close>
  | InplaceTupleOutputs
      \<comment> \<open>\<^verbatim>\<open>assert returns_length == 1\<close> for an in-place variant\<close>
  | JoinNoneType
      \<comment> \<open>TypeError of \<^verbatim>\<open>str.join\<close> on an item that is \<^verbatim>\<open>None\<close>\<close>

text \<open>A list comprehension whose element expression may raise: the first exception wins.\<close>

fun mapE :: "('a \<Rightarrow> error + 'b) \<Rightarrow> 'a list \<Rightarrow> error + 'b list" where
  "mapE f [] = Inr []"
| "mapE f (x # xs) =
     (case f x of
        Inl e \<Rightarrow> Inl e
      | Inr y \<Rightarrow> (case mapE f xs of Inl e \<Rightarrow> Inl e | Inr ys \<Rightarrow> Inr (y # ys)))"

subsection \<open>Expression builders\<close>

text \<open>
  \<^verbatim>\<open>lazy_value_string_from_optionals\<close>.  When the argument is not a graph value the Python
  function falls off its end and returns \<^verbatim>\<open>None\<close>: \<open>Inr None\<close>.
\<close>

definition lazy_value_string_from_optionals :: "externals \<Rightarrow> NamedCType \<Rightarrow> error + string option" where
  "lazy_value_string_from_optionals ext arg =
     (if isValueType ext (type arg) then
        (case type arg of
           BaseCType _ \<Rightarrow> Inr (Some (''lazy_'' @ name arg @ ''.GetIrValue()''))
         | OptionalCType _ \<Rightarrow>
             Inr (Some (''lazy_'' @ name arg @ '' ? lazy_'' @ name arg @
                        ''.GetIrValue() : torch::lazy::Value()''))
         | _ \<Rightarrow> Inl UnhandledValueType)
      else Inr None)"

definition node_ctor_arg_rvalue_string :: "externals \<Rightarrow> NamedCType \<Rightarrow> LazyIrSchema \<Rightarrow> error + string" where
  "node_ctor_arg_rvalue_string ext arg schema =
     (if isValueType ext (type arg) then
        (case type arg of
           BaseCType _ \<Rightarrow>
             (if name arg \<in> set (wrapped_scalar_names schema)
              then Inr (''torch::lazy::LazyGraphExecutor::Get()->GetIrValueForScalarFromCodegen('' @
                        name arg @ '')'')
              else Inr (''lazy_'' @ name arg @ ''.GetIrValue()''))
         | OptionalCType _ \<Rightarrow>
             (if name arg \<in> set (wrapped_scalar_names schema)
              then Inr (name arg @
                        '' ? c10::make_optional(torch::lazy::LazyGraphExecutor::Get()->GetIrValueForScalarFromCodegen(*'' @
                        name arg @ '')) : c10::nullopt'')
              else Inr (''lazy_'' @ name arg @ '' ? c10::make_optional(lazy_'' @ name arg @
                        ''.GetIrValue()) : c10::nullopt''))
         | _ \<Rightarrow> Inl UnhandledValueType)
      else
        (case type arg of
           VectorCType (BaseCType ty) \<Rightarrow>
             Inr (''std::vector<'' @ ty @ ''>('' @ name arg @ ''.begin(), '' @ name arg @ ''.end())'')
         | OptionalCType (VectorCType (BaseCType ty)) \<Rightarrow>
             Inr (''torch::lazy::ToOptionalVector<'' @ ty @ ''>('' @ name arg @ '')'')
         | _ \<Rightarrow> Inr (name arg)))"

definition node_ctor_inputs :: "externals \<Rightarrow> LazyIrSchema \<Rightarrow> error + string" where
  "node_ctor_inputs ext schema =
     (case mapE (\<lambda>arg. node_ctor_arg_rvalue_string ext arg schema) (all_types schema) of
        Inl e \<Rightarrow> Inl e
      | Inr node_ctor_values \<Rightarrow>
          Inr (join '',\<newline>                              ''
                 (node_ctor_values @ [''node_hash'', ''dag_hash''])))"

subsection \<open>Operator identity\<close>

definition missing_interned_strings :: "string set" where
  "missing_interned_strings = {''sigmoid_backward''}"

definition aten_symbol :: "LazyIrSchema \<Rightarrow> string" where
  \<open>aten_symbol schema =
     (if aten_name schema \<in> missing_interned_strings
      then ''c10::Symbol::fromQualString("aten::'' @ aten_name schema @ ''")''
      else ''at::aten::'' @ aten_name schema)\<close>

subsection \<open>Shape inference\<close>

text \<open>
  Class \<^verbatim>\<open>ComputeShapeSignature\<close>: the constructor stores the schema view, the joined
  dispatcher-style declarations and the joined argument names; the two properties build the
  declaration and the call from the base name.
\<close>

record ComputeShapeSignature =
  css_schema :: LazyIrSchema
  css_dispatch_args :: string
  css_call_args :: string

definition ComputeShapeSignature_init :: "externals \<Rightarrow> NativeFunction \<Rightarrow> ComputeShapeSignature" where
  "ComputeShapeSignature_init ext f =
     \<lparr>css_schema = func f,
      css_dispatch_args = join '', '' (dispatcher_arguments ext (func f)),
      css_call_args = join '', '' (map name (all_types (func f)))\<rparr>"

definition decl_suffix :: "ComputeShapeSignature \<Rightarrow> string" where
  "decl_suffix self = base_name (css_schema self) @ ''('' @ css_dispatch_args self @ '')''"

definition call_suffix :: "ComputeShapeSignature \<Rightarrow> string" where
  "call_suffix self = base_name (css_schema self) @ ''('' @ css_call_args self @ '')''"

definition shape_decl :: "ComputeShapeSignature \<Rightarrow> string" where
  "shape_decl self = ''std::vector<Shape> compute_shape_'' @ decl_suffix self"

definition shape_call :: "ComputeShapeSignature \<Rightarrow> string" where
  "shape_call self = ''torch_lazy_tensors::ir::ops::compute_shape_'' @ call_suffix self"

text \<open>\<^verbatim>\<open>cached_shape_inference\<close>, with its local function \<^verbatim>\<open>this_shape\<close>.\<close>

definition this_shape :: "nat \<Rightarrow> string" where
  "this_shape i =
     ''Shape(std::get<'' @ str_nat i @ ''>(out_meta).scalar_type(), std::get<'' @ str_nat i @
     ''>(out_meta).sizes().vec())''"

definition meta_out :: "nat \<Rightarrow> string" where
  "meta_out returns_length =
     (if returns_length > 1
      then ''cached_shapes = shape_cache->Add(dag_hash, std::make_shared<std::vector<Shape>>(std::initializer_list<Shape>{'' @
           join '','' (map this_shape [0..<returns_length]) @ ''}));''
      else ''cached_shapes = shape_cache->Add(dag_hash, std::make_shared<std::vector<Shape>>(std::initializer_list<Shape>{Shape(out_meta.scalar_type(), out_meta.sizes().vec())}));'')"

definition shapes_body :: "externals \<Rightarrow> NativeFunction \<Rightarrow> LazyIrSchema \<Rightarrow> nat \<Rightarrow> NamedCType list \<Rightarrow> string" where
  "shapes_body ext f schema returns_length all_tys =
     (if structured f \<or> structured_delegate f \<noteq> None
      then ''\<newline>            auto out_meta = at::meta::'' @ aten_name schema @ ''('' @
           join '', '' (map name all_tys) @ '');\<newline>            '' @
           meta_out returns_length @ ''\<newline>''
      else ''\<newline>            cached_shapes = shape_cache->Add(dag_hash, std::make_shared<std::vector<Shape>>('' @
           shape_call (ComputeShapeSignature_init ext f) @ ''));\<newline>'')"

definition cached_shape_inference :: "externals \<Rightarrow> NativeFunction \<Rightarrow> LazyIrSchema \<Rightarrow> nat \<Rightarrow> NamedCType list \<Rightarrow> string" where
  "cached_shape_inference ext f schema returns_length all_tys =
     ''\<newline>        auto shape_cache = torch::lazy::GetShapeCache();\<newline>        auto cached_shapes = shape_cache->Get(dag_hash);\<newline>        if (cached_shapes == nullptr) {'' @
     shapes_body ext f schema returns_length all_tys @
     ''\<newline>        }\<newline>        auto& shapes = *cached_shapes;\<newline>        TORCH_INTERNAL_ASSERT(shapes.size() == '' @
     str_nat returns_length @ '');\<newline>''"

subsection \<open>Node class emitter\<close>

text \<open>
  The loop of \<^verbatim>\<open>LazyIR.gen\<close> over the value types: it appends to
  \<^verbatim>\<open>base_ctor_value_args_list\<close> and \<^verbatim>\<open>optional_values\<close>, or raises.
\<close>

fun base_ctor_loop :: "NamedCType list \<Rightarrow> string list \<Rightarrow> string list \<Rightarrow> error + (string list \<times> string list)" where
  "base_ctor_loop [] base_ctor_value_args_list optional_values =
     Inr (base_ctor_value_args_list, optional_values)"
| "base_ctor_loop (t # ts) base_ctor_value_args_list optional_values =
     (case type t of
        BaseCType _ \<Rightarrow> base_ctor_loop ts (base_ctor_value_args_list @ [name t]) optional_values
      | OptionalCType _ \<Rightarrow>
          base_ctor_loop ts (base_ctor_value_args_list @ [name t @ ''.value_or(kNullValue)''])
            (optional_values @ [name t])
      | _ \<Rightarrow> Inl UnhandledValueType)"

definition member_to_string :: "NamedCType \<Rightarrow> string" where
  \<open>member_to_string t =
     (if is_OptionalCType (type t)
      then ''if ('' @ name t @ ''.has_value()) {\<newline>    ss << ", '' @ name t @ ''=" << '' @ name t @
           ''.value();\<newline>} else {\<newline>    ss << ", '' @ name t @ ''=null";\<newline>}''
      else ''ss << ", '' @ name t @ ''=" << '' @ name t @ '';'')\<close>

text \<open>The text of the class, in two parts: up to the end of the constructor, and the rest.\<close>

definition node_class_ctor :: "string \<Rightarrow> string \<Rightarrow> string \<Rightarrow> string \<Rightarrow> string \<Rightarrow> nat \<Rightarrow> string \<Rightarrow> string \<Rightarrow> string \<Rightarrow> string" where
  "node_class_ctor node_nm node_base node_ctor_args symbol base_ctor_value_args num_outputs
       comma_if_scalar_initializers scalar_initializers has_optional_defs =
     ''class '' @ node_nm @ '' : public '' @ node_base @ '' {\<newline> public:\<newline>  '' @ node_nm @ ''('' @
     node_ctor_args @ '', std::vector<Shape>&& shapes)\<newline>      : '' @ node_base @
     ''(torch::lazy::OpKind('' @ symbol @ ''),\<newline>              {'' @ base_ctor_value_args @
     ''}, std::move(shapes),\<newline>              /* num_outputs */ '' @ str_nat num_outputs @
     '',\<newline>              node_hash,\<newline>              dag_hash)'' @ comma_if_scalar_initializers @
     ''\<newline>        '' @ scalar_initializers @ ''\<newline>\<newline>  {\<newline>    '' @ has_optional_defs @ ''\<newline>  }\<newline>''"

definition node_class_rest :: "string \<Rightarrow> string \<Rightarrow> string \<Rightarrow> string \<Rightarrow> string" where
  "node_class_rest members_to_string_str lowering_body scalar_decls has_optional_decls =
     ''\<newline>  std::string ToString() const override {\<newline>    std::stringstream ss;\<newline>    ss << TsNode::ToString();\<newline>    '' @
     members_to_string_str @
     ''\<newline>    return ss.str();\<newline>  }\<newline>\<newline>  torch::lazy::TSOpVector Lower(std::shared_ptr<torch::jit::GraphFunction> function,\<newline>                   torch::lazy::TSLoweringContext* loctx) const override {\<newline>    '' @
     lowering_body @ ''\<newline>  }\<newline>\<newline>  '' @ scalar_decls @ ''\<newline>  '' @ has_optional_decls @
     ''\<newline>\<newline>};\<newline>\<newline>''"

text \<open>
  \<^verbatim>\<open>LazyIR.gen\<close>; \<^verbatim>\<open>LazyIR.__call__\<close> returns \<^verbatim>\<open>self.gen(f)\<close>.  Of the two fields of the
  dataclass only \<open>node_base\<close> is read.  \<open>gen_func\<close> is the first statement:
  \<^verbatim>\<open>func = f.functional.func if isinstance(f, NativeFunctionsGroup) else f.func\<close>.
\<close>

definition gen_func :: "NativeFunctionOrGroup \<Rightarrow> LazyIrSchema" where
  "gen_func f = (case f of Group g \<Rightarrow> func (functional g) | Single nf \<Rightarrow> func nf)"

definition LazyIR_gen :: "externals \<Rightarrow> string \<Rightarrow> NativeFunctionOrGroup \<Rightarrow> error + string list" where
  "LazyIR_gen ext node_base f =
     (let fn = gen_func f;
          schema = fn;
          all_tys = all_types schema;
          value_tys = value_types ext schema;
          scalar_tys = scalar_types ext schema;
          node_ctor_args = join '', ''
            (map (\<lambda>i. ''const '' @ cpp_type ext i @ ''& '' @ name i) all_tys @
             [''torch::lazy::hash_t node_hash, torch::lazy::hash_t dag_hash'']);
          scalar_initializers = join '',\<newline>        ''
            (map (\<lambda>t. name t @ ''('' @ name t @ '')'') scalar_tys);
          comma_if_scalar_initializers = (if length scalar_initializers \<noteq> 0 then '',\<newline>'' else []);
          scalar_decls = join ''\<newline>  '' (map (\<lambda>t. cpp_type ext t @ '' '' @ name t @ '';'') scalar_tys)
      in case base_ctor_loop value_tys [] [] of
           Inl e \<Rightarrow> Inl e
         | Inr (base_ctor_value_args_list, optional_values) \<Rightarrow>
             (let base_ctor_value_args = join '', '' base_ctor_value_args_list;
                  has_optional_decls = join ''\<newline>  ''
                    (map (\<lambda>v. ''bool has_'' @ v @ '': 1;'') optional_values);
                  has_optional_defs = join ''\<newline>    ''
                    (map (\<lambda>v. ''has_'' @ v @ '' = !!'' @ v @ '';'') optional_values);
                  members_to_string_str = join ''\<newline>    '' (map member_to_string scalar_tys)
              in Inr [node_class_ctor (node_name schema) node_base node_ctor_args (aten_symbol schema)
                        base_ctor_value_args (length (returns fn)) comma_if_scalar_initializers
                        scalar_initializers has_optional_defs @
                      node_class_rest members_to_string_str (ts_lowering_body ext f) scalar_decls
                        has_optional_decls]))"

definition LazyIR_call :: "externals \<Rightarrow> string \<Rightarrow> NativeFunctionOrGroup \<Rightarrow> error + string list" where
  "LazyIR_call ext node_base f = LazyIR_gen ext node_base f"

subsection \<open>Dispatch function emitter\<close>

text \<open>
  The loop of \<^verbatim>\<open>lazy_tensor_decls\<close>: a promoted scalar is skipped (\<^verbatim>\<open>continue\<close>), a plain
  or optional value appends a declaration, anything else raises.
\<close>

fun lazy_tensor_decls_loop :: "NamedCType list \<Rightarrow> string \<Rightarrow> LazyIrSchema \<Rightarrow> string list \<Rightarrow> error + string list" where
  "lazy_tensor_decls_loop [] tensor_class schema decls = Inr decls"
| "lazy_tensor_decls_loop (t # ts) tensor_class schema decls =
     (if name t \<in> set (wrapped_scalar_names schema)
      then lazy_tensor_decls_loop ts tensor_class schema decls
      else (case type t of
              BaseCType _ \<Rightarrow>
                lazy_tensor_decls_loop ts tensor_class schema
                  (decls @ [tensor_class @ '' lazy_'' @ name t @
                            '' = torch::lazy::GetLtcTensorOrCreateForWrappedNumber('' @ name t @
                            '', *device);''])
            | OptionalCType _ \<Rightarrow>
                lazy_tensor_decls_loop ts tensor_class schema
                  (decls @ [''    '' @ tensor_class @ '' lazy_'' @ name t @
                            '' = torch::lazy::TryGetLtcTensor('' @ name t @
                            ''.value_or(at::Tensor()));''])
            | _ \<Rightarrow> Inl UnhandledValueType))"

definition lazy_tensor_decls :: "NamedCType list \<Rightarrow> string \<Rightarrow> LazyIrSchema \<Rightarrow> error + string" where
  "lazy_tensor_decls value_tys tensor_class schema =
     (case lazy_tensor_decls_loop value_tys tensor_class schema [] of
        Inl e \<Rightarrow> Inl e
      | Inr decls \<Rightarrow> Inr (join ''\<newline>    '' decls))"

text \<open>The pieces of \<^verbatim>\<open>GenLazyNativeFuncDefinition.__call__\<close>, named as its local variables.\<close>

definition get_device_str :: "NamedCType list \<Rightarrow> string" where
  "get_device_str value_tys =
     ''auto device = torch::lazy::GetBackendDevice('' @ join '', '' (map name value_tys) @ '');''"

definition hashes :: "LazyIrSchema \<Rightarrow> NamedCType list \<Rightarrow> string list" where
  "hashes schema scalar_tys =
     [''static_cast<uint32_t>(at::aten::'' @ aten_name schema @ '')''] @ map name scalar_tys"

definition node_hash :: "LazyIrSchema \<Rightarrow> NamedCType list \<Rightarrow> string" where
  "node_hash schema scalar_tys =
     ''torch::lazy::hash_t node_hash = torch::lazy::MHash('' @ join '', '' (hashes schema scalar_tys) @
     '');''"

text \<open>
  \<^verbatim>\<open>ir_values\<close> is a comprehension with a condition: \<open>hash_operands\<close> is the list it ranges
  over after the condition \<^verbatim>\<open>if v.name not in schema.wrapped_scalar_names\<close>.
\<close>

definition hash_operands :: "LazyIrSchema \<Rightarrow> NamedCType list \<Rightarrow> NamedCType list" where
  "hash_operands schema value_tys =
     filter (\<lambda>v. name v \<notin> set (wrapped_scalar_names schema)) value_tys"

definition ir_values :: "externals \<Rightarrow> LazyIrSchema \<Rightarrow> NamedCType list \<Rightarrow> error + string option list" where
  "ir_values ext schema value_tys =
     mapE (lazy_value_string_from_optionals ext) (hash_operands schema value_tys)"

definition dag_hash :: "string option list \<Rightarrow> error + string" where
  "dag_hash ir_vals =
     (case join_opt '', '' ir_vals of
        None \<Rightarrow> Inl JoinNoneType
      | Some joined \<Rightarrow>
          Inr (''torch::lazy::hash_t dag_hash = torch::lazy::OperandHashes({'' @ joined @
               ''}, node_hash);''))"

definition node_str :: "LazyIrSchema \<Rightarrow> string \<Rightarrow> string" where
  "node_str schema node_ctor_input_str =
     ''auto node = torch::lazy::MakeNode<ir::ops::'' @ node_name schema @ ''>('' @ node_ctor_input_str @
     '',\<newline>                                                                                      std::move(shapes));''"

text \<open>
  The three bridges: one tensor, a tuple of tensors, the in-place update.  The in-place
  branch asserts one return before it overwrites the bridge.
\<close>

definition bridge_single :: "NamedCType \<Rightarrow> string" where
  "bridge_single first_tensor =
     ''auto result = torch::lazy::CreateAtenFromLtcTensor(torch::lazy::LazyTensor::Create(std::move(node), lazy_'' @
     name first_tensor @ ''.GetDevice()));''"

definition bridge_tuple :: "string \<Rightarrow> nat \<Rightarrow> NamedCType \<Rightarrow> string" where
  "bridge_tuple tensor_class returns_length first_tensor =
     ''std::vector<'' @ tensor_class @ ''> lazy_tensors;\<newline>        for (int i = 0; i < '' @
     str_nat returns_length @
     ''; i++) {\<newline>            lazy_tensors.push_back(torch::lazy::LazyTensor::Create(torch::lazy::Value(node, i), lazy_'' @
     name first_tensor @
     ''.GetDevice()));\<newline>        }\<newline>        auto result = torch::lazy::TupleAtenFromLtcTensors<'' @
     str_nat returns_length @ ''>(lazy_tensors);''"

definition bridge_inplace :: "NamedCType \<Rightarrow> string" where
  "bridge_inplace first_tensor =
     ''lazy_'' @ name first_tensor @ ''.SetInPlaceIrValue(node);\<newline>        auto& result = '' @
     name first_tensor @ '';''"

definition bridge_str :: "string \<Rightarrow> LazyIrSchema \<Rightarrow> nat \<Rightarrow> NamedCType \<Rightarrow> error + string" where
  "bridge_str tensor_class schema returns_length first_tensor =
     (let bridge = bridge_single first_tensor;
          bridge = (if returns_length > 1
                    then bridge_tuple tensor_class returns_length first_tensor
                    else bridge)
      in if inplace schema
         then (if returns_length = 1 then Inr (bridge_inplace first_tensor)
               else Inl InplaceTupleOutputs)
         else Inr bridge)"

text \<open>The returned text, with one slot per local variable.\<close>

definition dispatch_text :: "string \<Rightarrow> string \<Rightarrow> string \<Rightarrow> string \<Rightarrow> string \<Rightarrow> string \<Rightarrow> string \<Rightarrow> string" where
  \<open>dispatch_text sig_decl device_str lazy_tensor_decls_str hash_str shape_str node_s bridge_s =
     ''    '' @ sig_decl @ '' {\<newline>        TORCH_LAZY_FN_COUNTER("lazy::");\<newline>        '' @
     device_str @ ''\<newline>        '' @ lazy_tensor_decls_str @ ''\<newline>        '' @ hash_str @
     ''\<newline>        '' @ shape_str @ ''\<newline>        '' @ node_s @ ''\<newline>        '' @ bridge_s @
     ''\<newline>        return result;\<newline>    };\<newline>\<newline>    ''\<close>

text \<open>
  \<^verbatim>\<open>GenLazyNativeFuncDefinition.__call__\<close>, the fields of the dataclass being the three
  arguments after \<open>ext\<close>.  The statements run in the order of the source, so the first
  exception of the source is the one returned.
\<close>

definition GenLazyNativeFuncDefinition_call :: "externals \<Rightarrow> string \<Rightarrow> BackendIndex \<Rightarrow> string \<Rightarrow> NativeFunction \<Rightarrow> error + string list" where
  "GenLazyNativeFuncDefinition_call ext class_method_name backend_index tensor_class f =
     (let schema = func f;
          all_tys = all_types schema;
          value_tys = value_types ext schema;
          scalar_tys = scalar_types ext schema;
          returns_length = length (returns schema)
      in case lazy_tensor_decls value_tys tensor_class schema of
           Inl e \<Rightarrow> Inl e
         | Inr lazy_tensor_decls_str \<Rightarrow>
        (case node_ctor_inputs ext schema of
           Inl e \<Rightarrow> Inl e
         | Inr node_ctor_input_str \<Rightarrow>
        (case ir_values ext schema value_tys of
           Inl e \<Rightarrow> Inl e
         | Inr ir_vals \<Rightarrow>
        (case dag_hash ir_vals of
           Inl e \<Rightarrow> Inl e
         | Inr dag_hash_s \<Rightarrow>
        (let hash_str = node_hash schema scalar_tys @ ''\<newline>        '' @ dag_hash_s;
             shape_str = cached_shape_inference ext f schema returns_length all_tys
         in if \<not> (length value_tys > 0) then Inl NoTensorArguments
            else (case bridge_str tensor_class schema returns_length (hd value_tys) of
                    Inl e \<Rightarrow> Inl e
                  | Inr bridge_s \<Rightarrow>
                      Inr [dispatch_text
                             (kernel_signature_decl ext f backend_index
                                (class_method_name @ ''::'' @ aten_name schema))
                             (get_device_str value_tys) lazy_tensor_decls_str hash_str shape_str
                             (node_str schema node_ctor_input_str) bridge_s]))))))"

subsection \<open>Shape inference declaration emitter\<close>

text \<open>
  \<^verbatim>\<open>GenLazyShapeInferenceDefinition.__call__\<close>.  The tensor declarations and the constructor
  inputs are built first, as in the source, although only their exceptions can be observed.
\<close>

definition GenLazyShapeInferenceDefinition_call :: "externals \<Rightarrow> BackendIndex \<Rightarrow> string \<Rightarrow> NativeFunction \<Rightarrow> error + string list" where
  "GenLazyShapeInferenceDefinition_call ext backend_index tensor_class f =
     (let schema = func f;
          value_tys = value_types ext schema
      in case lazy_tensor_decls value_tys tensor_class schema of
           Inl e \<Rightarrow> Inl e
         | Inr lazy_tensor_decls_str \<Rightarrow>
        (case node_ctor_inputs ext schema of
           Inl e \<Rightarrow> Inl e
         | Inr node_ctor_input_str \<Rightarrow>
             (if \<not> structured f \<and> structured_delegate f = None
              then Inr [join ''\<newline>'' [shape_decl (ComputeShapeSignature_init ext f) @ '';'']]
              else Inr [])))"

subsection \<open>Sample inputs\<close>

text \<open>
  A concrete environment and a few operators, used to instantiate the theorems below.
  In it a type is a graph value when its innermost base type is \<open>torch::lazy::Value\<close>.
\<close>

fun sample_isValueType :: "CType \<Rightarrow> bool" where
  "sample_isValueType (BaseCType ty) = (ty = ''torch::lazy::Value'')"
| "sample_isValueType (OptionalCType elem) = sample_isValueType elem"
| "sample_isValueType (VectorCType elem) = sample_isValueType elem"
| "sample_isValueType (OtherCType _) = False"

fun sample_cpp_type :: "CType \<Rightarrow> string" where
  "sample_cpp_type (BaseCType ty) = ty"
| "sample_cpp_type (OptionalCType elem) = ''c10::optional<'' @ sample_cpp_type elem @ ''>''"
| "sample_cpp_type (VectorCType elem) = ''std::vector<'' @ sample_cpp_type elem @ ''>''"
| "sample_cpp_type (OtherCType c) = c"

definition sample_ext :: externals where
  "sample_ext =
     \<lparr>isValueType = sample_isValueType,
      cpp_type = (\<lambda>t. sample_cpp_type (type t)),
      ts_lowering_body = (\<lambda>f. ''return {};''),
      kernel_signature_decl = (\<lambda>f backend_index nm. ''at::Tensor '' @ nm @ ''()''),
      dispatcher_arguments = (\<lambda>schema. map (\<lambda>t. ''const at::Tensor & '' @ name t) (all_types schema))\<rparr>"

definition valueT :: CType where
  "valueT = BaseCType ''torch::lazy::Value''"

text \<open>\<open>add(self: value, other: value, alpha: scalar)\<close>, one return, not structured.\<close>

definition op_add :: NativeFunction where
  "op_add =
     \<lparr>func = \<lparr>node_name = ''AddTensor'', aten_name = ''add'', base_name = ''add'', inplace = False,
              all_types = [\<lparr>name = ''self'', type = valueT\<rparr>, \<lparr>name = ''other'', type = valueT\<rparr>,
                           \<lparr>name = ''alpha'', type = BaseCType ''at::Scalar''\<rparr>],
              wrapped_scalar_names = [], returns = [''Tensor'']\<rparr>,
      structured = False, structured_delegate = None\<rparr>"

text \<open>\<open>relu_(self: value)\<close>, in place, one return, delegating to a structured kernel.\<close>

definition op_relu_inplace :: NativeFunction where
  "op_relu_inplace =
     \<lparr>func = \<lparr>node_name = ''Relu'', aten_name = ''relu_'', base_name = ''relu'', inplace = True,
              all_types = [\<lparr>name = ''self'', type = valueT\<rparr>],
              wrapped_scalar_names = [], returns = [''Tensor'']\<rparr>,
      structured = False, structured_delegate = Some ''relu.out''\<rparr>"

text \<open>\<open>aminmax(self: value, dim: optional scalar)\<close>, two returns, structured.\<close>

definition op_aminmax :: NativeFunction where
  "op_aminmax =
     \<lparr>func = \<lparr>node_name = ''Aminmax'', aten_name = ''aminmax'', base_name = ''aminmax'', inplace = False,
              all_types = [\<lparr>name = ''self'', type = valueT\<rparr>,
                           \<lparr>name = ''dim'', type = OptionalCType (BaseCType ''int64_t'')\<rparr>],
              wrapped_scalar_names = [], returns = [''Tensor'', ''Tensor'']\<rparr>,
      structured = True, structured_delegate = None\<rparr>"

text \<open>\<open>mul(self: value, other: value promoted from a scalar)\<close>.\<close>

definition op_mul_scalar :: NativeFunction where
  "op_mul_scalar =
     \<lparr>func = \<lparr>node_name = ''MulScalar'', aten_name = ''mul'', base_name = ''mul'', inplace = False,
              all_types = [\<lparr>name = ''self'', type = valueT\<rparr>, \<lparr>name = ''other'', type = valueT\<rparr>],
              wrapped_scalar_names = [''other''], returns = [''Tensor'']\<rparr>,
      structured = False, structured_delegate = None\<rparr>"


text \<open>\<open>layer_norm(input: value, weight: optional value, bias: optional value, eps: scalar)\<close>.\<close>

definition op_layer_norm :: NativeFunction where
  "op_layer_norm =
     \<lparr>func = \<lparr>node_name = ''LayerNorm'', aten_name = ''layer_norm'', base_name = ''layer_norm'',
              inplace = False,
              all_types = [\<lparr>name = ''input'', type = valueT\<rparr>,
                           \<lparr>name = ''weight'', type = OptionalCType valueT\<rparr>,
                           \<lparr>name = ''bias'', type = OptionalCType valueT\<rparr>,
                           \<lparr>name = ''eps'', type = BaseCType ''double''\<rparr>],
              wrapped_scalar_names = [], returns = [''Tensor'']\<rparr>,
      structured = False, structured_delegate = None\<rparr>"

text \<open>\<open>zeros(size: vector of int)\<close>: no graph value among the arguments.\<close>

definition op_zeros :: NativeFunction where
  "op_zeros =
     \<lparr>func = \<lparr>node_name = ''Zeros'', aten_name = ''zeros'', base_name = ''zeros'', inplace = False,
              all_types = [\<lparr>name = ''size'', type = VectorCType (BaseCType ''int64_t'')\<rparr>],
              wrapped_scalar_names = [], returns = [''Tensor'']\<rparr>,
      structured = False, structured_delegate = None\<rparr>"

text \<open>\<open>cat(tensors: vector of values, dim: scalar)\<close>: a graph value that is neither plain nor optional.\<close>

definition op_cat :: NativeFunction where
  "op_cat =
     \<lparr>func = \<lparr>node_name = ''Cat'', aten_name = ''cat'', base_name = ''cat'', inplace = False,
              all_types = [\<lparr>name = ''tensors'', type = VectorCType valueT\<rparr>,
                           \<lparr>name = ''dim'', type = BaseCType ''int64_t''\<rparr>],
              wrapped_scalar_names = [], returns = [''Tensor'']\<rparr>,
      structured = False, structured_delegate = None\<rparr>"

section \<open>Properties\<close>

subsection \<open>Auxiliary facts\<close>

lemma join_Cons: "join sep (x # xs) = x @ concat (map (\<lambda>t. sep @ t) xs)"
  by (induction xs arbitrary: x) auto

lemma mapE_Inr_iff: "mapE f xs = Inr ys \<longleftrightarrow> map f xs = map Inr ys"
proof (induction xs arbitrary: ys)
  case Nil
  then show ?case by auto
next
  case (Cons x xs)
  show ?case
  proof (cases "f x")
    case (Inl e)
    then show ?thesis by (cases ys) auto
  next
    case (Inr y)
    note fx = this
    show ?thesis
    proof (cases "mapE f xs")
      case (Inl e)
      with Cons.IH fx show ?thesis by (cases ys) auto
    next
      case (Inr zs)
      with Cons.IH fx show ?thesis by (cases ys) auto
    qed
  qed
qed

lemma mapE_cases:
  "(\<exists>ys. mapE f xs = Inr ys) \<or> (\<exists>x\<in>set xs. \<exists>e. f x = Inl e \<and> mapE f xs = Inl e)"
proof (induction xs)
  case Nil
  then show ?case by simp
next
  case (Cons a xs)
  then show ?case by (cases "f a") (auto split: sum.splits)
qed

text \<open>Decimal numerals read back as the number they were printed from.\<close>

lemma digit_val_digit_char: "d < 10 \<Longrightarrow> digit_val (digit_char d) = d"
proof -
  assume "d < 10"
  then have "d \<in> {0, 1, 2, 3, 4, 5, 6, 7, 8, 9}" by auto
  then show ?thesis
    by (auto simp: digit_val_def digit_char_def)
qed

lemma dec_val_snoc: "dec_val (s @ [c]) = 10 * dec_val s + digit_val c"
  by (simp add: dec_val_def)

lemma dec_val_str_nat: "dec_val (str_nat n) = n"
proof (induction n rule: str_nat.induct)
  case (1 n)
  show ?case
  proof (cases "n < 10")
    case True
    then show ?thesis
      using digit_val_digit_char[of n]
      by (simp add: str_nat.simps[of n] dec_val_def)
  next
    case False
    then have "dec_val (str_nat n) =
        10 * dec_val (str_nat (n div 10)) + digit_val (digit_char (n mod 10))"
      by (subst str_nat.simps) (simp add: dec_val_snoc)
    also have "\<dots> = 10 * (n div 10) + n mod 10"
      using 1[OF False] digit_val_digit_char[of "n mod 10"] by simp
    also have "\<dots> = n" by simp
    finally show ?thesis .
  qed
qed

text \<open>The constructor-argument builder on an argument that is not a graph value.\<close>

lemma node_ctor_arg_scalar:
  "\<not> isValueType ext (type arg) \<Longrightarrow>
      node_ctor_arg_rvalue_string ext arg schema =
        Inr (case type arg of
               VectorCType (BaseCType ty) \<Rightarrow>
                 ''std::vector<'' @ ty @ ''>('' @ name arg @ ''.begin(), '' @ name arg @ ''.end())''
             | OptionalCType (VectorCType (BaseCType ty)) \<Rightarrow>
                 ''torch::lazy::ToOptionalVector<'' @ ty @ ''>('' @ name arg @ '')''
             | _ \<Rightarrow> name arg)"
  unfolding node_ctor_arg_rvalue_string_def
  by (simp split: CType.split)

lemma builders_unhandled:
  "isValueType ext (type arg) \<Longrightarrow> \<not> is_BaseCType (type arg) \<Longrightarrow> \<not> is_OptionalCType (type arg) \<Longrightarrow>
      lazy_value_string_from_optionals ext arg = Inl UnhandledValueType \<and>
      node_ctor_arg_rvalue_string ext arg schema = Inl UnhandledValueType"
  unfolding node_ctor_arg_rvalue_string_def lazy_value_string_from_optionals_def
  by (cases "type arg") simp_all

lemma node_ctor_arg_Inl:
  "node_ctor_arg_rvalue_string ext arg schema = Inl e \<longleftrightarrow>
   e = UnhandledValueType \<and> isValueType ext (type arg) \<and>
   \<not> is_BaseCType (type arg) \<and> \<not> is_OptionalCType (type arg)"
proof (cases "isValueType ext (type arg)")
  case True
  then show ?thesis unfolding node_ctor_arg_rvalue_string_def by (cases "type arg") auto
next
  case False
  then show ?thesis by (simp add: node_ctor_arg_scalar)
qed


lemma lazy_tensor_decls_loop_eq:
  "lazy_tensor_decls_loop ts tensor_class schema decls =
     (if \<forall>t\<in>set ts. name t \<in> set (wrapped_scalar_names schema) \<or>
                      is_BaseCType (type t) \<or> is_OptionalCType (type t)
      then Inr (decls @ map (\<lambda>t. if is_OptionalCType (type t)
                  then ''    '' @ tensor_class @ '' lazy_'' @ name t @
                       '' = torch::lazy::TryGetLtcTensor('' @ name t @ ''.value_or(at::Tensor()));''
                  else tensor_class @ '' lazy_'' @ name t @
                       '' = torch::lazy::GetLtcTensorOrCreateForWrappedNumber('' @ name t @ '', *device);'')
                (filter (\<lambda>t. name t \<notin> set (wrapped_scalar_names schema)) ts))
      else Inl UnhandledValueType)"
proof (induction ts arbitrary: decls)
  case Nil
  then show ?case by simp
next
  case (Cons t ts)
  show ?case by (cases "type t") (auto simp: Cons.IH)
qed

lemma lazy_tensor_decls_eq:
  "(\<exists>s. lazy_tensor_decls ts tensor_class schema = Inr s) \<longleftrightarrow>
     (\<forall>t\<in>set ts. name t \<in> set (wrapped_scalar_names schema) \<or>
                  is_BaseCType (type t) \<or> is_OptionalCType (type t))"
  "lazy_tensor_decls ts tensor_class schema = Inl e \<Longrightarrow> e = UnhandledValueType"
  by (auto simp: lazy_tensor_decls_def lazy_tensor_decls_loop_eq split: if_splits)

lemma node_ctor_inputs_eq:
  "(\<exists>s. node_ctor_inputs ext schema = Inr s) \<longleftrightarrow>
     (\<forall>t\<in>set (value_types ext schema). is_BaseCType (type t) \<or> is_OptionalCType (type t))"
  "node_ctor_inputs ext schema = Inl e \<Longrightarrow> e = UnhandledValueType"
proof -
  let ?f = "\<lambda>arg. node_ctor_arg_rvalue_string ext arg schema"
  show "(\<exists>s. node_ctor_inputs ext schema = Inr s) \<longleftrightarrow>
     (\<forall>t\<in>set (value_types ext schema). is_BaseCType (type t) \<or> is_OptionalCType (type t))"
  proof
    assume "\<exists>s. node_ctor_inputs ext schema = Inr s"
    then obtain ys where "mapE ?f (all_types schema) = Inr ys"
      by (auto simp: node_ctor_inputs_def split: sum.splits)
    then have m: "map ?f (all_types schema) = map Inr ys" by (simp add: mapE_Inr_iff)
    show "\<forall>t\<in>set (value_types ext schema). is_BaseCType (type t) \<or> is_OptionalCType (type t)"
    proof
      fix t assume t: "t \<in> set (value_types ext schema)"
      then have "t \<in> set (all_types schema)" and v: "isValueType ext (type t)"
        by (auto simp: value_types_def)
      then have "?f t \<in> set (map Inr ys)" using m by (metis image_eqI set_map)
      then have "\<not> isl (?f t)" by auto
      then have "?f t \<noteq> Inl UnhandledValueType" by auto
      with v show "is_BaseCType (type t) \<or> is_OptionalCType (type t)"
        using node_ctor_arg_Inl[of ext t schema UnhandledValueType] by blast
    qed
  next
    assume a: "\<forall>t\<in>set (value_types ext schema). is_BaseCType (type t) \<or> is_OptionalCType (type t)"
    have "\<not> (\<exists>x\<in>set (all_types schema). \<exists>e. ?f x = Inl e \<and> mapE ?f (all_types schema) = Inl e)"
      using a by (auto simp: node_ctor_arg_Inl value_types_def)
    with mapE_cases[of ?f "all_types schema"] obtain ys where "mapE ?f (all_types schema) = Inr ys"
      by blast
    then show "\<exists>s. node_ctor_inputs ext schema = Inr s" by (simp add: node_ctor_inputs_def)
  qed
  show "node_ctor_inputs ext schema = Inl e \<Longrightarrow> e = UnhandledValueType"
    using mapE_cases[of ?f "all_types schema"]
    by (auto simp: node_ctor_inputs_def node_ctor_arg_Inl split: sum.splits)
qed

lemma node_ctor_inputs_no_values:
  assumes "value_types ext schema = []"
  shows "\<exists>s. node_ctor_inputs ext schema = Inr s"
  using node_ctor_inputs_eq(1)[of ext schema] assms by simp

lemma bridge_str_cases:
  "bridge_str tensor_class schema n first_tensor =
     (if inplace schema
      then (if n = 1 then Inr (bridge_inplace first_tensor) else Inl InplaceTupleOutputs)
      else if n > 1 then Inr (bridge_tuple tensor_class n first_tensor)
      else Inr (bridge_single first_tensor))"
  by (simp add: bridge_str_def Let_def)

text \<open>What a successful run of the dispatch function emitter went through.\<close>

lemma dispatch_Inr:
  assumes "GenLazyNativeFuncDefinition_call ext class_method_name backend_index tensor_class f = Inr out"
  shows "\<exists>decls inputs irs dh br.
           lazy_tensor_decls (value_types ext (func f)) tensor_class (func f) = Inr decls \<and>
           node_ctor_inputs ext (func f) = Inr inputs \<and>
           ir_values ext (func f) (value_types ext (func f)) = Inr irs \<and>
           dag_hash irs = Inr dh \<and>
           value_types ext (func f) \<noteq> [] \<and>
           bridge_str tensor_class (func f) (length (returns (func f)))
             (hd (value_types ext (func f))) = Inr br \<and>
           out = [dispatch_text
                    (kernel_signature_decl ext f backend_index
                       (class_method_name @ ''::'' @ aten_name (func f)))
                    (get_device_str (value_types ext (func f))) decls
                    (node_hash (func f) (scalar_types ext (func f)) @ ''\<newline>        '' @ dh)
                    (cached_shape_inference ext f (func f) (length (returns (func f)))
                       (all_types (func f)))
                    (node_str (func f) inputs) br]"
proof -
  obtain decls where 1: "lazy_tensor_decls (value_types ext (func f)) tensor_class (func f) = Inr decls"
    using assms unfolding GenLazyNativeFuncDefinition_call_def Let_def
    by (cases "lazy_tensor_decls (value_types ext (func f)) tensor_class (func f)") simp_all
  obtain inputs where 2: "node_ctor_inputs ext (func f) = Inr inputs"
    using assms 1 unfolding GenLazyNativeFuncDefinition_call_def Let_def
    by (cases "node_ctor_inputs ext (func f)") simp_all
  obtain irs where 3: "ir_values ext (func f) (value_types ext (func f)) = Inr irs"
    using assms 1 2 unfolding GenLazyNativeFuncDefinition_call_def Let_def
    by (cases "ir_values ext (func f) (value_types ext (func f))") simp_all
  obtain dh where 4: "dag_hash irs = Inr dh"
    using assms 1 2 3 unfolding GenLazyNativeFuncDefinition_call_def Let_def
    by (cases "dag_hash irs") simp_all
  have 5: "value_types ext (func f) \<noteq> []"
    using assms 1 2 3 4 unfolding GenLazyNativeFuncDefinition_call_def Let_def
    by (auto split: if_splits)
  obtain br where 6: "bridge_str tensor_class (func f) (length (returns (func f)))
                        (hd (value_types ext (func f))) = Inr br"
    using assms 1 2 3 4 5 unfolding GenLazyNativeFuncDefinition_call_def Let_def
    by (cases "bridge_str tensor_class (func f) (length (returns (func f)))
                 (hd (value_types ext (func f)))") simp_all
  have "out = [dispatch_text
                    (kernel_signature_decl ext f backend_index
                       (class_method_name @ ''::'' @ aten_name (func f)))
                    (get_device_str (value_types ext (func f))) decls
                    (node_hash (func f) (scalar_types ext (func f)) @ ''\<newline>        '' @ dh)
                    (cached_shape_inference ext f (func f) (length (returns (func f)))
                       (all_types (func f)))
                    (node_str (func f) inputs) br]"
    using assms 1 2 3 4 5 6 unfolding GenLazyNativeFuncDefinition_call_def Let_def by simp
  with 1 2 3 4 5 6 show ?thesis by blast
qed

text \<open>Unfolding rules for the sample inputs.\<close>

lemmas sample_eval =
  value_types_def scalar_types_def lazy_tensor_decls_def node_ctor_inputs_def
  node_ctor_arg_rvalue_string_def ir_values_def hash_operands_def
  lazy_value_string_from_optionals_def
  dag_hash_def join_opt_def bridge_str_def sample_ext_def valueT_def

text \<open>
  Splitting a text at the first character that cannot belong to a name; joined lists of
  comma-free strings can be told apart.
\<close>

lemma append_eq_at_separator:
  assumes "\<forall>c\<in>set x. P c" and "\<forall>c\<in>set y. P c"
    and "r = [] \<or> \<not> P (hd r)" and "r' = [] \<or> \<not> P (hd r')"
    and "x @ r = y @ r'"
  shows "x = y \<and> r = r'"
proof -
  have "takeWhile P (x @ r) = x"
    using assms(1,3) by (simp add: takeWhile_eq_Nil_iff)
  moreover have "takeWhile P (y @ r') = y"
    using assms(2,4) by (simp add: takeWhile_eq_Nil_iff)
  ultimately have "x = y" using assms(5) by simp
  with assms(5) show ?thesis by simp
qed

lemma is_identifier_chars:
  "is_identifier s \<Longrightarrow> c \<in> set s \<Longrightarrow> identifier_char c"
  by (simp add: is_identifier_def list_all_iff)

lemma identifier_char_not_sep:
  "\<not> identifier_char CHR '',''" "\<not> identifier_char CHR ''.''" "\<not> identifier_char CHR '' ''"
  "\<not> identifier_char CHR '')''"
  by (simp_all add: identifier_char_def)

lemma is_identifier_no_comma: "is_identifier s \<Longrightarrow> CHR '','' \<notin> set s"
  using is_identifier_chars identifier_char_not_sep(1) by blast

lemma concat_sep_inj:
  assumes "\<forall>x\<in>set xs. CHR '','' \<notin> set x" and "\<forall>y\<in>set ys. CHR '','' \<notin> set y"
    and "concat (map (\<lambda>t. '', '' @ t) xs) = concat (map (\<lambda>t. '', '' @ t) ys)"
  shows "xs = ys"
  using assms
proof (induction xs arbitrary: ys)
  case Nil
  then show ?case by (cases ys) auto
next
  case (Cons x xs)
  show ?case
  proof (cases ys)
    case Nil
    with Cons.prems show ?thesis by simp
  next
    case (Cons y ys')
    let ?C = "\<lambda>zs. concat (map (\<lambda>t. '', '' @ t) zs)"
    from Cons.prems(3) Cons have e: "x @ ?C xs = y @ ?C ys'" by simp
    have r1: "?C xs = [] \<or> \<not> (\<lambda>c. c \<noteq> CHR '','') (hd (?C xs))" by (cases xs) auto
    have r2: "?C ys' = [] \<or> \<not> (\<lambda>c. c \<noteq> CHR '','') (hd (?C ys'))" by (cases ys') auto
    have px: "\<forall>c\<in>set x. c \<noteq> CHR '',''" using Cons.prems(1) by auto
    have py: "\<forall>c\<in>set y. c \<noteq> CHR '',''" using Cons.prems(2) Cons by auto
    from append_eq_at_separator[of x "\<lambda>c. c \<noteq> CHR '',''" y "?C xs" "?C ys'", OF px py r1 r2 e]
    have xy: "x = y" and cc: "?C xs = ?C ys'" by auto
    from Cons.IH[OF _ _ cc] Cons.prems(1,2) Cons have "xs = ys'" by auto
    with xy Cons show ?thesis by simp
  qed
qed

lemma join_Cons_inj:
  assumes "\<forall>z\<in>set (x # xs). CHR '','' \<notin> set z" and "\<forall>z\<in>set (y # ys). CHR '','' \<notin> set z"
    and "join '', '' (x # xs) = join '', '' (y # ys)"
  shows "x = y \<and> xs = ys"
proof -
  let ?C = "\<lambda>zs. concat (map (\<lambda>t. '', '' @ t) zs)"
  from assms(3) have e: "x @ ?C xs = y @ ?C ys" by (simp add: join_Cons)
  have r1: "?C xs = [] \<or> \<not> (\<lambda>c. c \<noteq> CHR '','') (hd (?C xs))" by (cases xs) auto
  have r2: "?C ys = [] \<or> \<not> (\<lambda>c. c \<noteq> CHR '','') (hd (?C ys))" by (cases ys) auto
  have px: "\<forall>c\<in>set x. c \<noteq> CHR '',''" using assms(1) by auto
  have py: "\<forall>c\<in>set y. c \<noteq> CHR '',''" using assms(2) by auto
  from append_eq_at_separator[of x "\<lambda>c. c \<noteq> CHR '',''" y "?C xs" "?C ys", OF px py r1 r2 e]
  have xy: "x = y" and cc: "?C xs = ?C ys" by auto
  have "xs = ys" using concat_sep_inj[OF _ _ cc] assms(1,2) by auto
  with xy show ?thesis by simp
qed

lemma join_inj:
  assumes "\<forall>x\<in>set xs. CHR '','' \<notin> set x \<and> x \<noteq> []"
    and "\<forall>y\<in>set ys. CHR '','' \<notin> set y \<and> y \<noteq> []"
    and "join '', '' xs = join '', '' ys"
  shows "xs = ys"
proof (cases xs)
  case Nil
  with assms show ?thesis by (cases ys) (auto simp: join_Cons)
next
  case (Cons x xs')
  note xs = this
  show ?thesis
  proof (cases ys)
    case Nil
    with assms xs show ?thesis by (auto simp: join_Cons)
  next
    case (Cons y ys')
    have "x = y \<and> xs' = ys'"
      using join_Cons_inj[of x xs' y ys'] assms xs Cons by auto
    with xs Cons show ?thesis by simp
  qed
qed

text \<open>The bridge-value form of an operand, as a function of its name and optionality.\<close>

lemma lazy_value_string_Some:
  assumes "lazy_value_string_from_optionals ext v = Inr (Some s)"
  shows "isValueType ext (type v) \<and> (is_BaseCType (type v) \<or> is_OptionalCType (type v)) \<and>
         s = ''lazy_'' @ name v @
             (if is_OptionalCType (type v)
              then '' ? lazy_'' @ name v @ ''.GetIrValue() : torch::lazy::Value()''
              else ''.GetIrValue()'')"
  using assms unfolding lazy_value_string_from_optionals_def
  by (cases "type v") (auto split: if_splits)

lemma bridge_form_inj:
  assumes "is_identifier n1" and "is_identifier n2"
    and "''lazy_'' @ n1 @ (if o1 then '' ? lazy_'' @ n1 @ ''.GetIrValue() : torch::lazy::Value()''
                           else ''.GetIrValue()'') =
         ''lazy_'' @ n2 @ (if o2 then '' ? lazy_'' @ n2 @ ''.GetIrValue() : torch::lazy::Value()''
                           else ''.GetIrValue()'')"
  shows "n1 = n2 \<and> o1 = o2"
proof -
  let ?r1 = "if o1 then '' ? lazy_'' @ n1 @ ''.GetIrValue() : torch::lazy::Value()'' else ''.GetIrValue()''"
  let ?r2 = "if o2 then '' ? lazy_'' @ n2 @ ''.GetIrValue() : torch::lazy::Value()'' else ''.GetIrValue()''"
  have e: "n1 @ ?r1 = n2 @ ?r2" using assms(3) by simp
  have p1: "\<forall>c\<in>set n1. identifier_char c" using assms(1) is_identifier_chars by blast
  have p2: "\<forall>c\<in>set n2. identifier_char c" using assms(2) is_identifier_chars by blast
  have r1: "?r1 = [] \<or> \<not> identifier_char (hd ?r1)" by (simp add: identifier_char_not_sep)
  have r2: "?r2 = [] \<or> \<not> identifier_char (hd ?r2)" by (simp add: identifier_char_not_sep)
  from append_eq_at_separator[OF p1 p2 r1 r2 e] have n: "n1 = n2" and r: "?r1 = ?r2" by auto
  from r have "o1 = o2" by (auto split: if_splits)
  with n show ?thesis by simp
qed

lemma ir_values_dag_hash:
  assumes "ir_values ext s vs = Inr irs" and "dag_hash irs = Inr d"
  shows "irs = map (\<lambda>v. Some (''lazy_'' @ name v @
                     (if is_OptionalCType (type v)
                      then '' ? lazy_'' @ name v @ ''.GetIrValue() : torch::lazy::Value()''
                      else ''.GetIrValue()''))) (hash_operands s vs) \<and>
         map (lazy_value_string_from_optionals ext) (hash_operands s vs) = map Inr irs \<and>
         d = ''torch::lazy::hash_t dag_hash = torch::lazy::OperandHashes({'' @
             join '', '' (map the irs) @ ''}, node_hash);''"
proof -
  let ?b = "\<lambda>v. ''lazy_'' @ name v @
                     (if is_OptionalCType (type v)
                      then '' ? lazy_'' @ name v @ ''.GetIrValue() : torch::lazy::Value()''
                      else ''.GetIrValue()'')"
  from assms(1) have m: "map (lazy_value_string_from_optionals ext) (hash_operands s vs) = map Inr irs"
    by (simp add: ir_values_def mapE_Inr_iff)
  from assms(2) have nn: "None \<notin> set irs"
    and d: "d = ''torch::lazy::hash_t dag_hash = torch::lazy::OperandHashes({'' @
             join '', '' (map the irs) @ ''}, node_hash);''"
    by (auto simp: dag_hash_def join_opt_def split: if_splits)
  have "\<And>v. v \<in> set (hash_operands s vs) \<Longrightarrow> lazy_value_string_from_optionals ext v = Inr (Some (?b v))"
  proof -
    fix v assume "v \<in> set (hash_operands s vs)"
    then have "lazy_value_string_from_optionals ext v \<in> set (map Inr irs)"
      using m by (metis image_eqI set_map)
    then obtain x where x: "x \<in> set irs" "lazy_value_string_from_optionals ext v = Inr x" by auto
    with nn obtain str where "x = Some str" by (cases x) auto
    with x lazy_value_string_Some[of ext v str] show "lazy_value_string_from_optionals ext v = Inr (Some (?b v))"
      by simp
  qed
  then have e: "map (lazy_value_string_from_optionals ext) (hash_operands s vs) =
             map (\<lambda>v. Inr (Some (?b v))) (hash_operands s vs)"
    by simp
  from m[symmetric] e
  have "map (Inr :: string option \<Rightarrow> error + string option) irs =
        map (\<lambda>v. Inr (Some (?b v))) (hash_operands s vs)"
    by (rule trans)
  then have "map (Inr :: string option \<Rightarrow> error + string option) irs =
             map Inr (map (\<lambda>v. Some (?b v)) (hash_operands s vs))"
    by (simp add: comp_def)
  then have "irs = map (\<lambda>v. Some (?b v)) (hash_operands s vs)"
    by (simp only: inj_map_eq_map[OF inj_Inr])
  with m d show ?thesis by blast
qed

lemma map_bridge_inj:
  assumes "\<forall>v\<in>set xs. is_identifier (name v)" and "\<forall>v\<in>set ys. is_identifier (name v)"
    and "map (\<lambda>v. ''lazy_'' @ name v @
                     (if is_OptionalCType (type v)
                      then '' ? lazy_'' @ name v @ ''.GetIrValue() : torch::lazy::Value()''
                      else ''.GetIrValue()'')) xs =
         map (\<lambda>v. ''lazy_'' @ name v @
                     (if is_OptionalCType (type v)
                      then '' ? lazy_'' @ name v @ ''.GetIrValue() : torch::lazy::Value()''
                      else ''.GetIrValue()'')) ys"
  shows "map name xs = map name ys"
  using assms
proof (induction xs arbitrary: ys)
  case Nil
  then show ?case by simp
next
  case (Cons x xs)
  from Cons.prems(3) obtain y ys' where ys: "ys = y # ys'" by (cases ys) auto
  from Cons.prems ys have "name x = name y"
    using bridge_form_inj[of "name x" "name y" "is_OptionalCType (type x)" "is_OptionalCType (type y)"]
    by simp
  moreover from Cons.IH[of ys'] Cons.prems ys have "map name xs = map name ys'" by simp
  ultimately show ?case using ys by simp
qed

subsection \<open>The text of the dispatch function\<close>

text \<open>
  The constructor-argument builder and the shape-inference text with every definition
  unfolded.  In the branch of an operation that is not structured, the call of the shape
  function is built by \<^verbatim>\<open>ComputeShapeSignature(func)\<close> from the function itself, not from
  the schema and the argument list passed in.
\<close>

lemma node_ctor_arg_literal:
  assumes "isValueType ext (type arg) \<Longrightarrow> is_BaseCType (type arg) \<or> is_OptionalCType (type arg)"
  shows "node_ctor_arg_rvalue_string ext arg s =
         Inr ((\<lambda>arg.
                  if isValueType ext (type arg)
                  then (if is_OptionalCType (type arg)
                        then (if name arg \<in> set (wrapped_scalar_names s)
                              then name arg @
                                   '' ? c10::make_optional(torch::lazy::LazyGraphExecutor::Get()->GetIrValueForScalarFromCodegen(*'' @
                                   name arg @ '')) : c10::nullopt''
                              else ''lazy_'' @ name arg @ '' ? c10::make_optional(lazy_'' @ name arg @
                                   ''.GetIrValue()) : c10::nullopt'')
                        else (if name arg \<in> set (wrapped_scalar_names s)
                              then ''torch::lazy::LazyGraphExecutor::Get()->GetIrValueForScalarFromCodegen('' @
                                   name arg @ '')''
                              else ''lazy_'' @ name arg @ ''.GetIrValue()''))
                  else (case type arg of
                          VectorCType (BaseCType ty) \<Rightarrow>
                            ''std::vector<'' @ ty @ ''>('' @ name arg @ ''.begin(), '' @ name arg @ ''.end())''
                        | OptionalCType (VectorCType (BaseCType ty)) \<Rightarrow>
                            ''torch::lazy::ToOptionalVector<'' @ ty @ ''>('' @ name arg @ '')''
                        | _ \<Rightarrow> name arg)) arg)"
proof (cases "isValueType ext (type arg)")
  case True
  with assms show ?thesis
    unfolding node_ctor_arg_rvalue_string_def by (cases "type arg") simp_all
next
  case False
  then show ?thesis by (simp add: node_ctor_arg_scalar)
qed

lemma cached_shape_inference_literal:
  "cached_shape_inference ext f s n tys =
     ''\<newline>        auto shape_cache = torch::lazy::GetShapeCache();\<newline>        auto cached_shapes = shape_cache->Get(dag_hash);\<newline>        if (cached_shapes == nullptr) {'' @
     (if structured f \<or> structured_delegate f \<noteq> None
      then ''\<newline>            auto out_meta = at::meta::'' @ aten_name s @ ''('' @
           join '', '' (map name (tys)) @ '');\<newline>            '' @
           (if n > 1
            then ''cached_shapes = shape_cache->Add(dag_hash, std::make_shared<std::vector<Shape>>(std::initializer_list<Shape>{'' @
                 join '',''
                   (map (\<lambda>i. ''Shape(std::get<'' @ str_nat i @ ''>(out_meta).scalar_type(), std::get<'' @
                              str_nat i @ ''>(out_meta).sizes().vec())'')
                      [0..<n]) @
                 ''}));''
            else ''cached_shapes = shape_cache->Add(dag_hash, std::make_shared<std::vector<Shape>>(std::initializer_list<Shape>{Shape(out_meta.scalar_type(), out_meta.sizes().vec())}));'') @
           ''\<newline>''
      else ''\<newline>            cached_shapes = shape_cache->Add(dag_hash, std::make_shared<std::vector<Shape>>(torch_lazy_tensors::ir::ops::compute_shape_'' @
           base_name (func f) @ ''('' @ join '', '' (map name (all_types (func f))) @ '')));\<newline>'') @
     ''\<newline>        }\<newline>        auto& shapes = *cached_shapes;\<newline>        TORCH_INTERNAL_ASSERT(shapes.size() == '' @
     str_nat n @ '');\<newline>''"
  by (simp add: cached_shape_inference_def shapes_body_def meta_out_def this_shape_def[abs_def]
        shape_call_def call_suffix_def ComputeShapeSignature_init_def)

text \<open>
  Every text the dispatch function emitter returns, written out in full.  The local names
  \<open>s\<close>, \<open>vts\<close>, \<open>scs\<close>, \<open>ops\<close> and \<open>n\<close> stand for the schema view, its value-type
  arguments, its scalar arguments, the value-type arguments that are not promoted scalars,
  and the number of declared returns.
\<close>

lemma dispatch_emitted:
  assumes call: "GenLazyNativeFuncDefinition_call ext class_method_name backend_index tensor_class f = Inr out"
    and s: "s = func f"
    and vts: "vts = filter (\<lambda>t. isValueType ext (type t)) (all_types s)"
    and scs: "scs = filter (\<lambda>t. \<not> isValueType ext (type t)) (all_types s)"
    and ops: "ops = filter (\<lambda>v. name v \<notin> set (wrapped_scalar_names s)) vts"
    and n: "n = length (returns s)"
  shows \<open>vts \<noteq> [] \<and>
         (\<forall>t\<in>set vts. is_BaseCType (type t) \<or> is_OptionalCType (type t)) \<and>
         (inplace s \<longrightarrow> n = 1) \<and>
         map (lazy_value_string_from_optionals ext) ops =
           map (\<lambda>v. Inr (Some (''lazy_'' @ name v @
                  (if is_OptionalCType (type v)
                   then '' ? lazy_'' @ name v @ ''.GetIrValue() : torch::lazy::Value()''
                   else ''.GetIrValue()'')))) ops \<and>
         out =
           [''    '' @
            kernel_signature_decl ext f backend_index (class_method_name @ ''::'' @ aten_name s) @
            '' {\<newline>        TORCH_LAZY_FN_COUNTER("lazy::");\<newline>        '' @
            ''auto device = torch::lazy::GetBackendDevice('' @ join '', '' (map name vts) @ '');'' @
            ''\<newline>        '' @
            join ''\<newline>    ''
              (map (\<lambda>t. if is_OptionalCType (type t)
                         then ''    '' @ tensor_class @ '' lazy_'' @ name t @
                              '' = torch::lazy::TryGetLtcTensor('' @ name t @ ''.value_or(at::Tensor()));''
                         else tensor_class @ '' lazy_'' @ name t @
                              '' = torch::lazy::GetLtcTensorOrCreateForWrappedNumber('' @ name t @ '', *device);'')
                 ops) @
            ''\<newline>        '' @
            ''torch::lazy::hash_t node_hash = torch::lazy::MHash('' @
            join '', '' ((''static_cast<uint32_t>(at::aten::'' @ aten_name s @ '')'') # map name scs) @ '');'' @
            ''\<newline>        '' @
            ''torch::lazy::hash_t dag_hash = torch::lazy::OperandHashes({'' @
            join '', ''
              (map (\<lambda>v. ''lazy_'' @ name v @
                           (if is_OptionalCType (type v)
                            then '' ? lazy_'' @ name v @ ''.GetIrValue() : torch::lazy::Value()''
                            else ''.GetIrValue()''))
                 ops) @
            ''}, node_hash);'' @
            ''\<newline>        '' @
            ''\<newline>        auto shape_cache = torch::lazy::GetShapeCache();\<newline>        auto cached_shapes = shape_cache->Get(dag_hash);\<newline>        if (cached_shapes == nullptr) {'' @
            (if structured f \<or> structured_delegate f \<noteq> None
             then ''\<newline>            auto out_meta = at::meta::'' @ aten_name s @ ''('' @
                  join '', '' (map name (all_types s)) @ '');\<newline>            '' @
                  (if n > 1
                   then ''cached_shapes = shape_cache->Add(dag_hash, std::make_shared<std::vector<Shape>>(std::initializer_list<Shape>{'' @
                        join '',''
                          (map (\<lambda>i. ''Shape(std::get<'' @ str_nat i @ ''>(out_meta).scalar_type(), std::get<'' @
                                     str_nat i @ ''>(out_meta).sizes().vec())'')
                             [0..<n]) @
                        ''}));''
                   else ''cached_shapes = shape_cache->Add(dag_hash, std::make_shared<std::vector<Shape>>(std::initializer_list<Shape>{Shape(out_meta.scalar_type(), out_meta.sizes().vec())}));'') @
                  ''\<newline>''
             else ''\<newline>            cached_shapes = shape_cache->Add(dag_hash, std::make_shared<std::vector<Shape>>(torch_lazy_tensors::ir::ops::compute_shape_'' @
                  base_name s @ ''('' @ join '', '' (map name (all_types s)) @ '')));\<newline>'') @
            ''\<newline>        }\<newline>        auto& shapes = *cached_shapes;\<newline>        TORCH_INTERNAL_ASSERT(shapes.size() == '' @
            str_nat n @ '');\<newline>'' @
            ''\<newline>        '' @
            ''auto node = torch::lazy::MakeNode<ir::ops::'' @ node_name s @ ''>('' @
            join '',\<newline>                              ''
              (map (\<lambda>arg.
               if isValueType ext (type arg)
               then (if is_OptionalCType (type arg)
                     then (if name arg \<in> set (wrapped_scalar_names s)
                           then name arg @
                                '' ? c10::make_optional(torch::lazy::LazyGraphExecutor::Get()->GetIrValueForScalarFromCodegen(*'' @
                                name arg @ '')) : c10::nullopt''
                           else ''lazy_'' @ name arg @ '' ? c10::make_optional(lazy_'' @ name arg @
                                ''.GetIrValue()) : c10::nullopt'')
                     else (if name arg \<in> set (wrapped_scalar_names s)
                           then ''torch::lazy::LazyGraphExecutor::Get()->GetIrValueForScalarFromCodegen('' @
                                name arg @ '')''
                           else ''lazy_'' @ name arg @ ''.GetIrValue()''))
               else (case type arg of
                       VectorCType (BaseCType ty) \<Rightarrow>
                         ''std::vector<'' @ ty @ ''>('' @ name arg @ ''.begin(), '' @ name arg @ ''.end())''
                     | OptionalCType (VectorCType (BaseCType ty)) \<Rightarrow>
                         ''torch::lazy::ToOptionalVector<'' @ ty @ ''>('' @ name arg @ '')''
                     | _ \<Rightarrow> name arg))
                 (all_types s) @
               [''node_hash'', ''dag_hash'']) @
            '',\<newline>                                                                                      std::move(shapes));'' @
            ''\<newline>        '' @
            (if inplace s
             then ''lazy_'' @ name (hd vts) @ ''.SetInPlaceIrValue(node);\<newline>        auto& result = '' @
                  name (hd vts) @ '';''
             else if n > 1
             then ''std::vector<'' @ tensor_class @ ''> lazy_tensors;\<newline>        for (int i = 0; i < '' @
                  str_nat n @
                  ''; i++) {\<newline>            lazy_tensors.push_back(torch::lazy::LazyTensor::Create(torch::lazy::Value(node, i), lazy_'' @
                  name (hd vts) @
                  ''.GetDevice()));\<newline>        }\<newline>        auto result = torch::lazy::TupleAtenFromLtcTensors<'' @
                  str_nat n @ ''>(lazy_tensors);''
             else ''auto result = torch::lazy::CreateAtenFromLtcTensor(torch::lazy::LazyTensor::Create(std::move(node), lazy_'' @
                  name (hd vts) @ ''.GetDevice()));'') @
            ''\<newline>        return result;\<newline>    };\<newline>\<newline>    '']\<close>
proof -
  have vt: "value_types ext s = vts" by (simp add: value_types_def vts)
  have st: "scalar_types ext s = scs" by (simp add: scalar_types_def scs)
  have ho: "hash_operands s vts = ops" by (simp add: hash_operands_def ops)
  have fs: "func f = s" and ln: "length (returns s) = n" by (simp_all add: s n)
  from dispatch_Inr[OF call, unfolded fs ln vt st] obtain decls inputs irs dh br where
    1: "lazy_tensor_decls vts tensor_class s = Inr decls" and
    2: "node_ctor_inputs ext s = Inr inputs" and
    3: "ir_values ext s vts = Inr irs" and
    4: "dag_hash irs = Inr dh" and
    5: "vts \<noteq> []" and
    6: "bridge_str tensor_class s n (hd vts) = Inr br" and
    7: "out = [dispatch_text
                 (kernel_signature_decl ext f backend_index (class_method_name @ ''::'' @ aten_name s))
                 (get_device_str vts) decls
                 (node_hash s scs @ ''\<newline>        '' @ dh)
                 (cached_shape_inference ext f s n (all_types s))
                 (node_str s inputs) br]"
    by blast
  from 2 have ok: "\<forall>t\<in>set vts. is_BaseCType (type t) \<or> is_OptionalCType (type t)"
    using node_ctor_inputs_eq(1)[of ext s] vt by auto
  from 1 ok have d: "decls =
      join ''\<newline>    ''
        (map (\<lambda>t. if is_OptionalCType (type t)
                   then ''    '' @ tensor_class @ '' lazy_'' @ name t @
                        '' = torch::lazy::TryGetLtcTensor('' @ name t @ ''.value_or(at::Tensor()));''
                   else tensor_class @ '' lazy_'' @ name t @
                        '' = torch::lazy::GetLtcTensorOrCreateForWrappedNumber('' @ name t @ '', *device);'')
           ops)"
    by (auto simp: lazy_tensor_decls_def lazy_tensor_decls_loop_eq ops split: if_splits)
  have "\<And>arg. arg \<in> set (all_types s) \<Longrightarrow>
          isValueType ext (type arg) \<Longrightarrow> is_BaseCType (type arg) \<or> is_OptionalCType (type arg)"
    using ok by (simp add: vts)
  then have "map (\<lambda>arg. node_ctor_arg_rvalue_string ext arg s) (all_types s) =
             map (\<lambda>arg. Inr ((\<lambda>arg.
                       if isValueType ext (type arg)
                       then (if is_OptionalCType (type arg)
                             then (if name arg \<in> set (wrapped_scalar_names s)
                                   then name arg @
                                        '' ? c10::make_optional(torch::lazy::LazyGraphExecutor::Get()->GetIrValueForScalarFromCodegen(*'' @
                                        name arg @ '')) : c10::nullopt''
                                   else ''lazy_'' @ name arg @ '' ? c10::make_optional(lazy_'' @ name arg @
                                        ''.GetIrValue()) : c10::nullopt'')
                             else (if name arg \<in> set (wrapped_scalar_names s)
                                   then ''torch::lazy::LazyGraphExecutor::Get()->GetIrValueForScalarFromCodegen('' @
                                        name arg @ '')''
                                   else ''lazy_'' @ name arg @ ''.GetIrValue()''))
                       else (case type arg of
                               VectorCType (BaseCType ty) \<Rightarrow>
                                 ''std::vector<'' @ ty @ ''>('' @ name arg @ ''.begin(), '' @ name arg @ ''.end())''
                             | OptionalCType (VectorCType (BaseCType ty)) \<Rightarrow>
                                 ''torch::lazy::ToOptionalVector<'' @ ty @ ''>('' @ name arg @ '')''
                             | _ \<Rightarrow> name arg)) arg)) (all_types s)"
    by (simp add: node_ctor_arg_literal)
  then have "mapE (\<lambda>arg. node_ctor_arg_rvalue_string ext arg s) (all_types s) =
             Inr (map (\<lambda>arg.
                       if isValueType ext (type arg)
                       then (if is_OptionalCType (type arg)
                             then (if name arg \<in> set (wrapped_scalar_names s)
                                   then name arg @
                                        '' ? c10::make_optional(torch::lazy::LazyGraphExecutor::Get()->GetIrValueForScalarFromCodegen(*'' @
                                        name arg @ '')) : c10::nullopt''
                                   else ''lazy_'' @ name arg @ '' ? c10::make_optional(lazy_'' @ name arg @
                                        ''.GetIrValue()) : c10::nullopt'')
                             else (if name arg \<in> set (wrapped_scalar_names s)
                                   then ''torch::lazy::LazyGraphExecutor::Get()->GetIrValueForScalarFromCodegen('' @
                                        name arg @ '')''
                                   else ''lazy_'' @ name arg @ ''.GetIrValue()''))
                       else (case type arg of
                               VectorCType (BaseCType ty) \<Rightarrow>
                                 ''std::vector<'' @ ty @ ''>('' @ name arg @ ''.begin(), '' @ name arg @ ''.end())''
                             | OptionalCType (VectorCType (BaseCType ty)) \<Rightarrow>
                                 ''torch::lazy::ToOptionalVector<'' @ ty @ ''>('' @ name arg @ '')''
                             | _ \<Rightarrow> name arg)) (all_types s))"
    by (simp add: mapE_Inr_iff comp_def)
  with 2 have i: "inputs =
      join '',\<newline>                              ''
        (map (\<lambda>arg.
                if isValueType ext (type arg)
                then (if is_OptionalCType (type arg)
                      then (if name arg \<in> set (wrapped_scalar_names s)
                            then name arg @
                                 '' ? c10::make_optional(torch::lazy::LazyGraphExecutor::Get()->GetIrValueForScalarFromCodegen(*'' @
                                 name arg @ '')) : c10::nullopt''
                            else ''lazy_'' @ name arg @ '' ? c10::make_optional(lazy_'' @ name arg @
                                 ''.GetIrValue()) : c10::nullopt'')
                      else (if name arg \<in> set (wrapped_scalar_names s)
                            then ''torch::lazy::LazyGraphExecutor::Get()->GetIrValueForScalarFromCodegen('' @
                                 name arg @ '')''
                            else ''lazy_'' @ name arg @ ''.GetIrValue()''))
                else (case type arg of
                        VectorCType (BaseCType ty) \<Rightarrow>
                          ''std::vector<'' @ ty @ ''>('' @ name arg @ ''.begin(), '' @ name arg @ ''.end())''
                      | OptionalCType (VectorCType (BaseCType ty)) \<Rightarrow>
                          ''torch::lazy::ToOptionalVector<'' @ ty @ ''>('' @ name arg @ '')''
                      | _ \<Rightarrow> name arg))
           (all_types s) @
         [''node_hash'', ''dag_hash''])"
    by (simp add: node_ctor_inputs_def)
  note iv = ir_values_dag_hash[OF 3 4, unfolded ho]
  from iv have h: "dh =
      ''torch::lazy::hash_t dag_hash = torch::lazy::OperandHashes({'' @
      join '', ''
        (map (\<lambda>v. ''lazy_'' @ name v @
                     (if is_OptionalCType (type v)
                      then '' ? lazy_'' @ name v @ ''.GetIrValue() : torch::lazy::Value()''
                      else ''.GetIrValue()''))
           ops) @
      ''}, node_hash);''"
    by (simp add: comp_def)
  from iv have m: "map (lazy_value_string_from_optionals ext) ops =
           map (\<lambda>v. Inr (Some (''lazy_'' @ name v @
                  (if is_OptionalCType (type v)
                   then '' ? lazy_'' @ name v @ ''.GetIrValue() : torch::lazy::Value()''
                   else ''.GetIrValue()'')))) ops"
    by (simp add: comp_def)
  from 6 have ip: "inplace s \<longrightarrow> n = 1"
    by (auto simp: bridge_str_cases split: if_splits)
  from 6 have b: "br =
      (if inplace s
       then ''lazy_'' @ name (hd vts) @ ''.SetInPlaceIrValue(node);\<newline>        auto& result = '' @
            name (hd vts) @ '';''
       else if n > 1
       then ''std::vector<'' @ tensor_class @ ''> lazy_tensors;\<newline>        for (int i = 0; i < '' @
            str_nat n @
            ''; i++) {\<newline>            lazy_tensors.push_back(torch::lazy::LazyTensor::Create(torch::lazy::Value(node, i), lazy_'' @
            name (hd vts) @
            ''.GetDevice()));\<newline>        }\<newline>        auto result = torch::lazy::TupleAtenFromLtcTensors<'' @
            str_nat n @ ''>(lazy_tensors);''
       else ''auto result = torch::lazy::CreateAtenFromLtcTensor(torch::lazy::LazyTensor::Create(std::move(node), lazy_'' @
            name (hd vts) @ ''.GetDevice()));'')"
    by (auto simp: bridge_str_cases bridge_inplace_def bridge_tuple_def bridge_single_def
          split: if_splits)
  have o: \<open>out =
           [''    '' @
            kernel_signature_decl ext f backend_index (class_method_name @ ''::'' @ aten_name s) @
            '' {\<newline>        TORCH_LAZY_FN_COUNTER("lazy::");\<newline>        '' @
            ''auto device = torch::lazy::GetBackendDevice('' @ join '', '' (map name vts) @ '');'' @
            ''\<newline>        '' @
            join ''\<newline>    ''
              (map (\<lambda>t. if is_OptionalCType (type t)
                         then ''    '' @ tensor_class @ '' lazy_'' @ name t @
                              '' = torch::lazy::TryGetLtcTensor('' @ name t @ ''.value_or(at::Tensor()));''
                         else tensor_class @ '' lazy_'' @ name t @
                              '' = torch::lazy::GetLtcTensorOrCreateForWrappedNumber('' @ name t @ '', *device);'')
                 ops) @
            ''\<newline>        '' @
            ''torch::lazy::hash_t node_hash = torch::lazy::MHash('' @
            join '', '' ((''static_cast<uint32_t>(at::aten::'' @ aten_name s @ '')'') # map name scs) @ '');'' @
            ''\<newline>        '' @
            ''torch::lazy::hash_t dag_hash = torch::lazy::OperandHashes({'' @
            join '', ''
              (map (\<lambda>v. ''lazy_'' @ name v @
                           (if is_OptionalCType (type v)
                            then '' ? lazy_'' @ name v @ ''.GetIrValue() : torch::lazy::Value()''
                            else ''.GetIrValue()''))
                 ops) @
            ''}, node_hash);'' @
            ''\<newline>        '' @
            ''\<newline>        auto shape_cache = torch::lazy::GetShapeCache();\<newline>        auto cached_shapes = shape_cache->Get(dag_hash);\<newline>        if (cached_shapes == nullptr) {'' @
            (if structured f \<or> structured_delegate f \<noteq> None
             then ''\<newline>            auto out_meta = at::meta::'' @ aten_name s @ ''('' @
                  join '', '' (map name (all_types s)) @ '');\<newline>            '' @
                  (if n > 1
                   then ''cached_shapes = shape_cache->Add(dag_hash, std::make_shared<std::vector<Shape>>(std::initializer_list<Shape>{'' @
                        join '',''
                          (map (\<lambda>i. ''Shape(std::get<'' @ str_nat i @ ''>(out_meta).scalar_type(), std::get<'' @
                                     str_nat i @ ''>(out_meta).sizes().vec())'')
                             [0..<n]) @
                        ''}));''
                   else ''cached_shapes = shape_cache->Add(dag_hash, std::make_shared<std::vector<Shape>>(std::initializer_list<Shape>{Shape(out_meta.scalar_type(), out_meta.sizes().vec())}));'') @
                  ''\<newline>''
             else ''\<newline>            cached_shapes = shape_cache->Add(dag_hash, std::make_shared<std::vector<Shape>>(torch_lazy_tensors::ir::ops::compute_shape_'' @
                  base_name s @ ''('' @ join '', '' (map name (all_types s)) @ '')));\<newline>'') @
            ''\<newline>        }\<newline>        auto& shapes = *cached_shapes;\<newline>        TORCH_INTERNAL_ASSERT(shapes.size() == '' @
            str_nat n @ '');\<newline>'' @
            ''\<newline>        '' @
            ''auto node = torch::lazy::MakeNode<ir::ops::'' @ node_name s @ ''>('' @
            join '',\<newline>                              ''
              (map (\<lambda>arg.
               if isValueType ext (type arg)
               then (if is_OptionalCType (type arg)
                     then (if name arg \<in> set (wrapped_scalar_names s)
                           then name arg @
                                '' ? c10::make_optional(torch::lazy::LazyGraphExecutor::Get()->GetIrValueForScalarFromCodegen(*'' @
                                name arg @ '')) : c10::nullopt''
                           else ''lazy_'' @ name arg @ '' ? c10::make_optional(lazy_'' @ name arg @
                                ''.GetIrValue()) : c10::nullopt'')
                     else (if name arg \<in> set (wrapped_scalar_names s)
                           then ''torch::lazy::LazyGraphExecutor::Get()->GetIrValueForScalarFromCodegen('' @
                                name arg @ '')''
                           else ''lazy_'' @ name arg @ ''.GetIrValue()''))
               else (case type arg of
                       VectorCType (BaseCType ty) \<Rightarrow>
                         ''std::vector<'' @ ty @ ''>('' @ name arg @ ''.begin(), '' @ name arg @ ''.end())''
                     | OptionalCType (VectorCType (BaseCType ty)) \<Rightarrow>
                         ''torch::lazy::ToOptionalVector<'' @ ty @ ''>('' @ name arg @ '')''
                     | _ \<Rightarrow> name arg))
                 (all_types s) @
               [''node_hash'', ''dag_hash'']) @
            '',\<newline>                                                                                      std::move(shapes));'' @
            ''\<newline>        '' @
            (if inplace s
             then ''lazy_'' @ name (hd vts) @ ''.SetInPlaceIrValue(node);\<newline>        auto& result = '' @
                  name (hd vts) @ '';''
             else if n > 1
             then ''std::vector<'' @ tensor_class @ ''> lazy_tensors;\<newline>        for (int i = 0; i < '' @
                  str_nat n @
                  ''; i++) {\<newline>            lazy_tensors.push_back(torch::lazy::LazyTensor::Create(torch::lazy::Value(node, i), lazy_'' @
                  name (hd vts) @
                  ''.GetDevice()));\<newline>        }\<newline>        auto result = torch::lazy::TupleAtenFromLtcTensors<'' @
                  str_nat n @ ''>(lazy_tensors);''
             else ''auto result = torch::lazy::CreateAtenFromLtcTensor(torch::lazy::LazyTensor::Create(std::move(node), lazy_'' @
                  name (hd vts) @ ''.GetDevice()));'') @
            ''\<newline>        return result;\<newline>    };\<newline>\<newline>    '']\<close>
    unfolding 7 d i h b
    by (simp add: dispatch_text_def get_device_str_def node_hash_def hashes_def node_str_def
          cached_shape_inference_literal fs)
  from 5 ok ip m o show ?thesis by blast
qed

subsection \<open>Expression builders on unrecognised types\<close>

text \<open>
  Claim C1, as the code has it.  For an argument that is a graph value and whose type is
  neither plain (\<open>BaseCType\<close>) nor optional (\<open>OptionalCType\<close>), both expression builders
  raise the assertion error.  For an argument that is not a graph value the
  constructor-argument form never fails: a vector of a base type and an optional vector of
  a base type are copied into owned sequences, and every other type falls back to the bare
  name of the argument.
\<close>

theorem builders_fail_only_on_unhandled_values:
  "(isValueType ext (type arg) \<and> \<not> is_BaseCType (type arg) \<and> \<not> is_OptionalCType (type arg) \<longrightarrow>
      lazy_value_string_from_optionals ext arg = Inl UnhandledValueType \<and>
      node_ctor_arg_rvalue_string ext arg schema = Inl UnhandledValueType) \<and>
   (\<not> isValueType ext (type arg) \<longrightarrow>
      node_ctor_arg_rvalue_string ext arg schema =
        Inr (case type arg of
               VectorCType (BaseCType ty) \<Rightarrow>
                 ''std::vector<'' @ ty @ ''>('' @ name arg @ ''.begin(), '' @ name arg @ ''.end())''
             | OptionalCType (VectorCType (BaseCType ty)) \<Rightarrow>
                 ''torch::lazy::ToOptionalVector<'' @ ty @ ''>('' @ name arg @ '')''
             | _ \<Rightarrow> name arg))"
  using builders_unhandled[of ext arg schema] node_ctor_arg_scalar[of ext arg schema] by blast

text \<open>
  Witness for C1: a vector of graph values makes both builders fail; a vector of integers,
  not a graph value, is copied into an owned sequence.
\<close>

theorem builders_fail_only_on_unhandled_values_witness:
  "isValueType sample_ext (VectorCType valueT) \<and>
   \<not> is_BaseCType (VectorCType valueT) \<and> \<not> is_OptionalCType (VectorCType valueT) \<and>
   lazy_value_string_from_optionals sample_ext \<lparr>name = ''tensors'', type = VectorCType valueT\<rparr> =
     Inl UnhandledValueType \<and>
   node_ctor_arg_rvalue_string sample_ext \<lparr>name = ''tensors'', type = VectorCType valueT\<rparr> (func op_cat) =
     Inl UnhandledValueType \<and>
   \<not> isValueType sample_ext (VectorCType (BaseCType ''int64_t'')) \<and>
   node_ctor_arg_rvalue_string sample_ext \<lparr>name = ''size'', type = VectorCType (BaseCType ''int64_t'')\<rparr>
     (func op_zeros) = Inr ''std::vector<int64_t>(size.begin(), size.end())''"
  using builders_fail_only_on_unhandled_values
          [of sample_ext "\<lparr>name = ''tensors'', type = VectorCType valueT\<rparr>" "func op_cat"]
        builders_fail_only_on_unhandled_values
          [of sample_ext "\<lparr>name = ''size'', type = VectorCType (BaseCType ''int64_t'')\<rparr>" "func op_zeros"]
  by (simp add: sample_ext_def valueT_def)

text \<open>
  Claim C1 as stated fails: the constructor-argument form returns an expression, the bare
  name, for types outside the four recognised shapes.  Two instances: the plain scalar
  \<open>alpha\<close> of \<open>add\<close> (not a graph value, hence not a "plain value"), and a vector
  of vectors, which is none of plain, optional, vector-of-plain or optional-vector-of-plain
  under any reading.
\<close>

theorem builders_silent_fallback_counterexample:
  "\<not> isValueType sample_ext (BaseCType ''at::Scalar'') \<and>
   node_ctor_arg_rvalue_string sample_ext \<lparr>name = ''alpha'', type = BaseCType ''at::Scalar''\<rparr>
     (func op_add) = Inr ''alpha'' \<and>
   \<not> isValueType sample_ext (VectorCType (VectorCType (BaseCType ''int64_t''))) \<and>
   node_ctor_arg_rvalue_string sample_ext
     \<lparr>name = ''sizes'', type = VectorCType (VectorCType (BaseCType ''int64_t''))\<rparr>
     (func op_add) = Inr ''sizes''"
  by (simp add: node_ctor_arg_rvalue_string_def sample_ext_def)

subsection \<open>In-place operations\<close>



subsection \<open>Forward declarations of shape functions\<close>

text \<open>
  Claim C5, as the code has it.  The emitter first builds the tensor declarations and the
  constructor inputs, so it raises the assertion error as soon as one graph-value argument
  is neither plain nor optional, whether the operation is structured or not.  For every
  other operation: a structured operation, or one delegating to a structured kernel, yields
  the empty fragment list, and any other operation yields exactly one forward declaration
  \<open>std::vector<Shape> compute_shape_<base_name>(<dispatcher arguments>);\<close>, named after the
  base name.
\<close>

theorem shape_decl_routing:
  "GenLazyShapeInferenceDefinition_call ext backend_index tensor_class f =
     (if \<forall>t\<in>set (value_types ext (func f)). is_BaseCType (type t) \<or> is_OptionalCType (type t)
      then Inr (if structured f \<or> structured_delegate f \<noteq> None then []
                else [''std::vector<Shape> compute_shape_'' @ base_name (func f) @ ''('' @
                      join '', '' (dispatcher_arguments ext (func f)) @ '');''])
      else Inl UnhandledValueType)"
proof (cases "\<forall>t\<in>set (value_types ext (func f)). is_BaseCType (type t) \<or> is_OptionalCType (type t)")
  case True
  then obtain s where s: "node_ctor_inputs ext (func f) = Inr s"
    using node_ctor_inputs_eq(1)[of ext "func f"] by blast
  from True obtain d where d: "lazy_tensor_decls (value_types ext (func f)) tensor_class (func f) = Inr d"
    using lazy_tensor_decls_eq(1)[of "value_types ext (func f)" tensor_class "func f"] by blast
  show ?thesis
    unfolding GenLazyShapeInferenceDefinition_call_def Let_def
    using True
    by (simp add: s d shape_decl_def decl_suffix_def ComputeShapeSignature_init_def)
next
  case False
  then have n: "\<not> (\<exists>s. node_ctor_inputs ext (func f) = Inr s)"
    using node_ctor_inputs_eq(1)[of ext "func f"] by blast
  show ?thesis
  proof (cases "lazy_tensor_decls (value_types ext (func f)) tensor_class (func f)")
    case (Inl e)
    with lazy_tensor_decls_eq(2)[OF Inl] False show ?thesis
      unfolding GenLazyShapeInferenceDefinition_call_def Let_def by simp
  next
    case (Inr d)
    from n obtain e where e: "node_ctor_inputs ext (func f) = Inl e"
      by (cases "node_ctor_inputs ext (func f)") auto
    from node_ctor_inputs_eq(2)[OF e] e Inr False show ?thesis
      unfolding GenLazyShapeInferenceDefinition_call_def Let_def by simp
  qed
qed

text \<open>
  Witness for C5: \<open>add\<close> (not structured) gets its declaration, \<open>relu_\<close> (delegating)
  and \<open>aminmax\<close> (structured) get none; \<open>relu_\<close> would be declared under its base name.
\<close>

theorem shape_decl_routing_witness:
  "list_all (\<lambda>t. is_BaseCType (type t) \<or> is_OptionalCType (type t))
     (value_types sample_ext (func op_add)) \<and>
   GenLazyShapeInferenceDefinition_call sample_ext ''ts'' ''torch::lazy::LazyTensor'' op_add =
     Inr [''std::vector<Shape> compute_shape_add(const at::Tensor & self, const at::Tensor & other, const at::Tensor & alpha);''] \<and>
   GenLazyShapeInferenceDefinition_call sample_ext ''ts'' ''torch::lazy::LazyTensor'' op_relu_inplace = Inr [] \<and>
   GenLazyShapeInferenceDefinition_call sample_ext ''ts'' ''torch::lazy::LazyTensor'' op_aminmax = Inr [] \<and>
   GenLazyShapeInferenceDefinition_call sample_ext ''ts'' ''torch::lazy::LazyTensor''
     (op_relu_inplace\<lparr>structured_delegate := None\<rparr>) =
     Inr [''std::vector<Shape> compute_shape_relu(const at::Tensor & self);'']"
proof -
  have 1: "GenLazyShapeInferenceDefinition_call sample_ext ''ts'' ''torch::lazy::LazyTensor'' op_add =
     Inr [''std::vector<Shape> compute_shape_add(const at::Tensor & self, const at::Tensor & other, const at::Tensor & alpha);'']"
    using shape_decl_routing[of sample_ext "''ts''" "''torch::lazy::LazyTensor''" op_add]
    by (simp add: value_types_def op_add_def sample_ext_def valueT_def)
  have 2: "GenLazyShapeInferenceDefinition_call sample_ext ''ts'' ''torch::lazy::LazyTensor'' op_relu_inplace = Inr []"
    using shape_decl_routing[of sample_ext "''ts''" "''torch::lazy::LazyTensor''" op_relu_inplace]
    by (simp add: value_types_def op_relu_inplace_def sample_ext_def valueT_def)
  have 3: "GenLazyShapeInferenceDefinition_call sample_ext ''ts'' ''torch::lazy::LazyTensor'' op_aminmax = Inr []"
    using shape_decl_routing[of sample_ext "''ts''" "''torch::lazy::LazyTensor''" op_aminmax]
    by (simp add: value_types_def op_aminmax_def sample_ext_def valueT_def)
  have 4: "GenLazyShapeInferenceDefinition_call sample_ext ''ts'' ''torch::lazy::LazyTensor''
     (op_relu_inplace\<lparr>structured_delegate := None\<rparr>) =
     Inr [''std::vector<Shape> compute_shape_relu(const at::Tensor & self);'']"
    using shape_decl_routing[of sample_ext "''ts''" "''torch::lazy::LazyTensor''"
            "op_relu_inplace\<lparr>structured_delegate := None\<rparr>"]
    by (simp add: value_types_def op_relu_inplace_def sample_ext_def valueT_def)
  have 0: "list_all (\<lambda>t. is_BaseCType (type t) \<or> is_OptionalCType (type t))
             (value_types sample_ext (func op_add))"
    by (simp add: value_types_def op_add_def sample_ext_def valueT_def)
  from 0 1 2 3 4 show ?thesis by blast
qed

text \<open>
  Claim C5 as stated fails: \<open>cat\<close> is not structured and delegates to nothing, yet no
  forward declaration is produced for it; its vector of graph values makes the emitter
  abort.  Marked structured, it aborts as well instead of yielding the empty list.
\<close>

theorem shape_decl_routing_counterexample:
  "\<not> structured op_cat \<and> structured_delegate op_cat = None \<and>
   GenLazyShapeInferenceDefinition_call sample_ext ''ts'' ''torch::lazy::LazyTensor'' op_cat =
     Inl UnhandledValueType \<and>
   structured (op_cat\<lparr>structured := True\<rparr>) \<and>
   GenLazyShapeInferenceDefinition_call sample_ext ''ts'' ''torch::lazy::LazyTensor''
     (op_cat\<lparr>structured := True\<rparr>) = Inl UnhandledValueType"
  unfolding GenLazyShapeInferenceDefinition_call_def Let_def
  by (simp add: value_types_def lazy_tensor_decls_def op_cat_def sample_ext_def valueT_def)

subsection \<open>Operations without a graph-value argument\<close>

text \<open>
  Claim C7.  For an operation with no value-type argument the dispatch function emitter
  raises the assertion error "Only supporting tensor ops so far" and returns no text.
\<close>

theorem no_value_argument_aborts:
  assumes "value_types ext (func f) = []"
  shows "GenLazyNativeFuncDefinition_call ext class_method_name backend_index tensor_class f =
           Inl NoTensorArguments"
proof -
  obtain s where s: "node_ctor_inputs ext (func f) = Inr s"
    using node_ctor_inputs_no_values[OF assms] by blast
  have d: "lazy_tensor_decls [] tensor_class (func f) = Inr []"
    by (simp add: lazy_tensor_decls_def)
  have i: "ir_values ext (func f) [] = Inr []"
    by (simp add: ir_values_def hash_operands_def)
  have "\<exists>h. dag_hash [] = Inr h"
    by (simp add: dag_hash_def join_opt_def)
  then obtain h where h: "dag_hash [] = Inr h" ..
  show ?thesis
    unfolding GenLazyNativeFuncDefinition_call_def Let_def
    by (simp add: assms s d i h)
qed

text \<open>Witness for C7: \<open>zeros\<close> takes a vector of integers only.\<close>

theorem no_value_argument_aborts_witness:
  "value_types sample_ext (func op_zeros) = [] \<and>
   GenLazyNativeFuncDefinition_call sample_ext ''LazyNativeFunctions'' ''ts''
     ''torch::lazy::LazyTensor'' op_zeros = Inl NoTensorArguments"
proof -
  have v: "value_types sample_ext (func op_zeros) = []"
    by (simp add: value_types_def op_zeros_def sample_ext_def)
  from v no_value_argument_aborts[OF v] show ?thesis by simp
qed

subsection \<open>Operations with several returns\<close>



subsection \<open>The shape cache\<close>

text \<open>
  Claim C4.  The shape-inference text is, for every operation, the lookup of \<open>dag_hash\<close>
  in the global shape cache, the test for a miss, whose block alone computes the shape list
  and inserts it under \<open>dag_hash\<close>, and after the block the assertion that the number of
  shapes is the decimal numeral of the return count.  The shape list is, for a structured
  or delegating operation, one \<open>Shape\<close> per return built from the result of the meta
  function, and otherwise the result of \<open>compute_shape_<base_name>\<close>.  Every text the
  dispatch function emitter returns holds this wrapper, for the operation's own declared
  return count, between the hashes and the construction of the node.
\<close>

theorem shape_cache_wrapper:
  assumes s: "s = func f"
    and vts: "vts = filter (\<lambda>t. isValueType ext (type t)) (all_types s)"
    and scs: "scs = filter (\<lambda>t. \<not> isValueType ext (type t)) (all_types s)"
    and ops: "ops = filter (\<lambda>v. name v \<notin> set (wrapped_scalar_names s)) vts"
    and n: "n = length (returns s)"
  shows \<open>cached_shape_inference ext f schema m tys =
           ''\<newline>        auto shape_cache = torch::lazy::GetShapeCache();\<newline>        auto cached_shapes = shape_cache->Get(dag_hash);\<newline>        if (cached_shapes == nullptr) {'' @
           (if structured f \<or> structured_delegate f \<noteq> None
            then ''\<newline>            auto out_meta = at::meta::'' @ aten_name schema @ ''('' @
                 join '', '' (map name (tys)) @ '');\<newline>            '' @
                 (if m > 1
                  then ''cached_shapes = shape_cache->Add(dag_hash, std::make_shared<std::vector<Shape>>(std::initializer_list<Shape>{'' @
                       join '',''
                         (map (\<lambda>i. ''Shape(std::get<'' @ str_nat i @ ''>(out_meta).scalar_type(), std::get<'' @
                                    str_nat i @ ''>(out_meta).sizes().vec())'')
                            [0..<m]) @
                       ''}));''
                  else ''cached_shapes = shape_cache->Add(dag_hash, std::make_shared<std::vector<Shape>>(std::initializer_list<Shape>{Shape(out_meta.scalar_type(), out_meta.sizes().vec())}));'') @
                 ''\<newline>''
            else ''\<newline>            cached_shapes = shape_cache->Add(dag_hash, std::make_shared<std::vector<Shape>>(torch_lazy_tensors::ir::ops::compute_shape_'' @
                 base_name (func f) @ ''('' @ join '', '' (map name (all_types (func f))) @ '')));\<newline>'') @
           ''\<newline>        }\<newline>        auto& shapes = *cached_shapes;\<newline>        TORCH_INTERNAL_ASSERT(shapes.size() == '' @
           str_nat m @ '');\<newline>'' \<and>
         dec_val (str_nat m) = m \<and>
         (\<forall>out. GenLazyNativeFuncDefinition_call ext class_method_name backend_index tensor_class f = Inr out \<longrightarrow>
            out =
              [''    '' @
               kernel_signature_decl ext f backend_index (class_method_name @ ''::'' @ aten_name s) @
               '' {\<newline>        TORCH_LAZY_FN_COUNTER("lazy::");\<newline>        '' @
               ''auto device = torch::lazy::GetBackendDevice('' @ join '', '' (map name vts) @ '');'' @
               ''\<newline>        '' @
               join ''\<newline>    ''
                 (map (\<lambda>t. if is_OptionalCType (type t)
                            then ''    '' @ tensor_class @ '' lazy_'' @ name t @
                                 '' = torch::lazy::TryGetLtcTensor('' @ name t @ ''.value_or(at::Tensor()));''
                            else tensor_class @ '' lazy_'' @ name t @
                                 '' = torch::lazy::GetLtcTensorOrCreateForWrappedNumber('' @ name t @ '', *device);'')
                    ops) @
               ''\<newline>        '' @
               ''torch::lazy::hash_t node_hash = torch::lazy::MHash('' @
               join '', '' ((''static_cast<uint32_t>(at::aten::'' @ aten_name s @ '')'') # map name scs) @ '');'' @
               ''\<newline>        '' @
               ''torch::lazy::hash_t dag_hash = torch::lazy::OperandHashes({'' @
               join '', ''
                 (map (\<lambda>v. ''lazy_'' @ name v @
                              (if is_OptionalCType (type v)
                               then '' ? lazy_'' @ name v @ ''.GetIrValue() : torch::lazy::Value()''
                               else ''.GetIrValue()''))
                    ops) @
               ''}, node_hash);'' @
               ''\<newline>        '' @
               ''\<newline>        auto shape_cache = torch::lazy::GetShapeCache();\<newline>        auto cached_shapes = shape_cache->Get(dag_hash);\<newline>        if (cached_shapes == nullptr) {'' @
               (if structured f \<or> structured_delegate f \<noteq> None
                then ''\<newline>            auto out_meta = at::meta::'' @ aten_name s @ ''('' @
                     join '', '' (map name (all_types s)) @ '');\<newline>            '' @
                     (if n > 1
                      then ''cached_shapes = shape_cache->Add(dag_hash, std::make_shared<std::vector<Shape>>(std::initializer_list<Shape>{'' @
                           join '',''
                             (map (\<lambda>i. ''Shape(std::get<'' @ str_nat i @ ''>(out_meta).scalar_type(), std::get<'' @
                                        str_nat i @ ''>(out_meta).sizes().vec())'')
                                [0..<n]) @
                           ''}));''
                      else ''cached_shapes = shape_cache->Add(dag_hash, std::make_shared<std::vector<Shape>>(std::initializer_list<Shape>{Shape(out_meta.scalar_type(), out_meta.sizes().vec())}));'') @
                     ''\<newline>''
                else ''\<newline>            cached_shapes = shape_cache->Add(dag_hash, std::make_shared<std::vector<Shape>>(torch_lazy_tensors::ir::ops::compute_shape_'' @
                     base_name s @ ''('' @ join '', '' (map name (all_types s)) @ '')));\<newline>'') @
               ''\<newline>        }\<newline>        auto& shapes = *cached_shapes;\<newline>        TORCH_INTERNAL_ASSERT(shapes.size() == '' @
               str_nat n @ '');\<newline>'' @
               ''\<newline>        '' @
               ''auto node = torch::lazy::MakeNode<ir::ops::'' @ node_name s @ ''>('' @
               join '',\<newline>                              ''
                 (map (\<lambda>arg.
                  if isValueType ext (type arg)
                  then (if is_OptionalCType (type arg)
                        then (if name arg \<in> set (wrapped_scalar_names s)
                              then name arg @
                                   '' ? c10::make_optional(torch::lazy::LazyGraphExecutor::Get()->GetIrValueForScalarFromCodegen(*'' @
                                   name arg @ '')) : c10::nullopt''
                              else ''lazy_'' @ name arg @ '' ? c10::make_optional(lazy_'' @ name arg @
                                   ''.GetIrValue()) : c10::nullopt'')
                        else (if name arg \<in> set (wrapped_scalar_names s)
                              then ''torch::lazy::LazyGraphExecutor::Get()->GetIrValueForScalarFromCodegen('' @
                                   name arg @ '')''
                              else ''lazy_'' @ name arg @ ''.GetIrValue()''))
                  else (case type arg of
                          VectorCType (BaseCType ty) \<Rightarrow>
                            ''std::vector<'' @ ty @ ''>('' @ name arg @ ''.begin(), '' @ name arg @ ''.end())''
                        | OptionalCType (VectorCType (BaseCType ty)) \<Rightarrow>
                            ''torch::lazy::ToOptionalVector<'' @ ty @ ''>('' @ name arg @ '')''
                        | _ \<Rightarrow> name arg))
                    (all_types s) @
                  [''node_hash'', ''dag_hash'']) @
               '',\<newline>                                                                                      std::move(shapes));'' @
               ''\<newline>        '' @
               (if inplace s
                then ''lazy_'' @ name (hd vts) @ ''.SetInPlaceIrValue(node);\<newline>        auto& result = '' @
                     name (hd vts) @ '';''
                else if n > 1
                then ''std::vector<'' @ tensor_class @ ''> lazy_tensors;\<newline>        for (int i = 0; i < '' @
                     str_nat n @
                     ''; i++) {\<newline>            lazy_tensors.push_back(torch::lazy::LazyTensor::Create(torch::lazy::Value(node, i), lazy_'' @
                     name (hd vts) @
                     ''.GetDevice()));\<newline>        }\<newline>        auto result = torch::lazy::TupleAtenFromLtcTensors<'' @
                     str_nat n @ ''>(lazy_tensors);''
                else ''auto result = torch::lazy::CreateAtenFromLtcTensor(torch::lazy::LazyTensor::Create(std::move(node), lazy_'' @
                     name (hd vts) @ ''.GetDevice()));'') @
               ''\<newline>        return result;\<newline>    };\<newline>\<newline>    ''])\<close>
proof -
  have \<open>out =
              [''    '' @
               kernel_signature_decl ext f backend_index (class_method_name @ ''::'' @ aten_name s) @
               '' {\<newline>        TORCH_LAZY_FN_COUNTER("lazy::");\<newline>        '' @
               ''auto device = torch::lazy::GetBackendDevice('' @ join '', '' (map name vts) @ '');'' @
               ''\<newline>        '' @
               join ''\<newline>    ''
                 (map (\<lambda>t. if is_OptionalCType (type t)
                            then ''    '' @ tensor_class @ '' lazy_'' @ name t @
                                 '' = torch::lazy::TryGetLtcTensor('' @ name t @ ''.value_or(at::Tensor()));''
                            else tensor_class @ '' lazy_'' @ name t @
                                 '' = torch::lazy::GetLtcTensorOrCreateForWrappedNumber('' @ name t @ '', *device);'')
                    ops) @
               ''\<newline>        '' @
               ''torch::lazy::hash_t node_hash = torch::lazy::MHash('' @
               join '', '' ((''static_cast<uint32_t>(at::aten::'' @ aten_name s @ '')'') # map name scs) @ '');'' @
               ''\<newline>        '' @
               ''torch::lazy::hash_t dag_hash = torch::lazy::OperandHashes({'' @
               join '', ''
                 (map (\<lambda>v. ''lazy_'' @ name v @
                              (if is_OptionalCType (type v)
                               then '' ? lazy_'' @ name v @ ''.GetIrValue() : torch::lazy::Value()''
                               else ''.GetIrValue()''))
                    ops) @
               ''}, node_hash);'' @
               ''\<newline>        '' @
               ''\<newline>        auto shape_cache = torch::lazy::GetShapeCache();\<newline>        auto cached_shapes = shape_cache->Get(dag_hash);\<newline>        if (cached_shapes == nullptr) {'' @
               (if structured f \<or> structured_delegate f \<noteq> None
                then ''\<newline>            auto out_meta = at::meta::'' @ aten_name s @ ''('' @
                     join '', '' (map name (all_types s)) @ '');\<newline>            '' @
                     (if n > 1
                      then ''cached_shapes = shape_cache->Add(dag_hash, std::make_shared<std::vector<Shape>>(std::initializer_list<Shape>{'' @
                           join '',''
                             (map (\<lambda>i. ''Shape(std::get<'' @ str_nat i @ ''>(out_meta).scalar_type(), std::get<'' @
                                        str_nat i @ ''>(out_meta).sizes().vec())'')
                                [0..<n]) @
                           ''}));''
                      else ''cached_shapes = shape_cache->Add(dag_hash, std::make_shared<std::vector<Shape>>(std::initializer_list<Shape>{Shape(out_meta.scalar_type(), out_meta.sizes().vec())}));'') @
                     ''\<newline>''
                else ''\<newline>            cached_shapes = shape_cache->Add(dag_hash, std::make_shared<std::vector<Shape>>(torch_lazy_tensors::ir::ops::compute_shape_'' @
                     base_name s @ ''('' @ join '', '' (map name (all_types s)) @ '')));\<newline>'') @
               ''\<newline>        }\<newline>        auto& shapes = *cached_shapes;\<newline>        TORCH_INTERNAL_ASSERT(shapes.size() == '' @
               str_nat n @ '');\<newline>'' @
               ''\<newline>        '' @
               ''auto node = torch::lazy::MakeNode<ir::ops::'' @ node_name s @ ''>('' @
               join '',\<newline>                              ''
                 (map (\<lambda>arg.
                  if isValueType ext (type arg)
                  then (if is_OptionalCType (type arg)
                        then (if name arg \<in> set (wrapped_scalar_names s)
                              then name arg @
                                   '' ? c10::make_optional(torch::lazy::LazyGraphExecutor::Get()->GetIrValueForScalarFromCodegen(*'' @
                                   name arg @ '')) : c10::nullopt''
                              else ''lazy_'' @ name arg @ '' ? c10::make_optional(lazy_'' @ name arg @
                                   ''.GetIrValue()) : c10::nullopt'')
                        else (if name arg \<in> set (wrapped_scalar_names s)
                              then ''torch::lazy::LazyGraphExecutor::Get()->GetIrValueForScalarFromCodegen('' @
                                   name arg @ '')''
                              else ''lazy_'' @ name arg @ ''.GetIrValue()''))
                  else (case type arg of
                          VectorCType (BaseCType ty) \<Rightarrow>
                            ''std::vector<'' @ ty @ ''>('' @ name arg @ ''.begin(), '' @ name arg @ ''.end())''
                        | OptionalCType (VectorCType (BaseCType ty)) \<Rightarrow>
                            ''torch::lazy::ToOptionalVector<'' @ ty @ ''>('' @ name arg @ '')''
                        | _ \<Rightarrow> name arg))
                    (all_types s) @
                  [''node_hash'', ''dag_hash'']) @
               '',\<newline>                                                                                      std::move(shapes));'' @
               ''\<newline>        '' @
               (if inplace s
                then ''lazy_'' @ name (hd vts) @ ''.SetInPlaceIrValue(node);\<newline>        auto& result = '' @
                     name (hd vts) @ '';''
                else if n > 1
                then ''std::vector<'' @ tensor_class @ ''> lazy_tensors;\<newline>        for (int i = 0; i < '' @
                     str_nat n @
                     ''; i++) {\<newline>            lazy_tensors.push_back(torch::lazy::LazyTensor::Create(torch::lazy::Value(node, i), lazy_'' @
                     name (hd vts) @
                     ''.GetDevice()));\<newline>        }\<newline>        auto result = torch::lazy::TupleAtenFromLtcTensors<'' @
                     str_nat n @ ''>(lazy_tensors);''
                else ''auto result = torch::lazy::CreateAtenFromLtcTensor(torch::lazy::LazyTensor::Create(std::move(node), lazy_'' @
                     name (hd vts) @ ''.GetDevice()));'') @
               ''\<newline>        return result;\<newline>    };\<newline>\<newline>    '']\<close>
    if c: "GenLazyNativeFuncDefinition_call ext class_method_name backend_index tensor_class f = Inr out" for out
    using dispatch_emitted[OF c s vts scs ops n] by blast
  with cached_shape_inference_literal[of ext f schema m tys] dec_val_str_nat[of m]
  show ?thesis by blast
qed

text \<open>
  Witness for C4: the whole texts emitted for \<open>add\<close> (not structured, one return) and
  \<open>aminmax\<close> (structured, two returns).
\<close>

theorem shape_cache_wrapper_witness:
  \<open>GenLazyNativeFuncDefinition_call sample_ext ''LazyNativeFunctions'' ''ts''
      ''torch::lazy::LazyTensor'' op_add =
     Inr [''    at::Tensor LazyNativeFunctions::add() {\<newline>'' @
          ''        TORCH_LAZY_FN_COUNTER("lazy::");\<newline>'' @
          ''        auto device = torch::lazy::GetBackendDevice(self, other);\<newline>'' @
          ''        torch::lazy::LazyTensor lazy_self = torch::lazy::GetLtcTensorOrCreateForWrappedNumber(self, *device);\<newline>'' @
          ''    torch::lazy::LazyTensor lazy_other = torch::lazy::GetLtcTensorOrCreateForWrappedNumber(other, *device);\<newline>'' @
          ''        torch::lazy::hash_t node_hash = torch::lazy::MHash(static_cast<uint32_t>(at::aten::add), alpha);\<newline>'' @
          ''        torch::lazy::hash_t dag_hash = torch::lazy::OperandHashes({lazy_self.GetIrValue(), lazy_other.GetIrValue()}, node_hash);\<newline>'' @
          ''        \<newline>'' @
          ''        auto shape_cache = torch::lazy::GetShapeCache();\<newline>'' @
          ''        auto cached_shapes = shape_cache->Get(dag_hash);\<newline>'' @
          ''        if (cached_shapes == nullptr) {\<newline>'' @
          ''            cached_shapes = shape_cache->Add(dag_hash, std::make_shared<std::vector<Shape>>(torch_lazy_tensors::ir::ops::compute_shape_add(self, other, alpha)));\<newline>'' @
          ''\<newline>'' @
          ''        }\<newline>'' @
          ''        auto& shapes = *cached_shapes;\<newline>'' @
          ''        TORCH_INTERNAL_ASSERT(shapes.size() == 1);\<newline>'' @
          ''\<newline>'' @
          ''        auto node = torch::lazy::MakeNode<ir::ops::AddTensor>(lazy_self.GetIrValue(),\<newline>'' @
          ''                              lazy_other.GetIrValue(),\<newline>'' @
          ''                              alpha,\<newline>'' @
          ''                              node_hash,\<newline>'' @
          ''                              dag_hash,\<newline>'' @
          ''                                                                                      std::move(shapes));\<newline>'' @
          ''        auto result = torch::lazy::CreateAtenFromLtcTensor(torch::lazy::LazyTensor::Create(std::move(node), lazy_self.GetDevice()));\<newline>'' @
          ''        return result;\<newline>'' @
          ''    };\<newline>'' @
          ''\<newline>'' @
          ''    ''] \<and>
   GenLazyNativeFuncDefinition_call sample_ext ''LazyNativeFunctions'' ''ts''
      ''torch::lazy::LazyTensor'' op_aminmax =
     Inr [''    at::Tensor LazyNativeFunctions::aminmax() {\<newline>'' @
          ''        TORCH_LAZY_FN_COUNTER("lazy::");\<newline>'' @
          ''        auto device = torch::lazy::GetBackendDevice(self);\<newline>'' @
          ''        torch::lazy::LazyTensor lazy_self = torch::lazy::GetLtcTensorOrCreateForWrappedNumber(self, *device);\<newline>'' @
          ''        torch::lazy::hash_t node_hash = torch::lazy::MHash(static_cast<uint32_t>(at::aten::aminmax), dim);\<newline>'' @
          ''        torch::lazy::hash_t dag_hash = torch::lazy::OperandHashes({lazy_self.GetIrValue()}, node_hash);\<newline>'' @
          ''        \<newline>'' @
          ''        auto shape_cache = torch::lazy::GetShapeCache();\<newline>'' @
          ''        auto cached_shapes = shape_cache->Get(dag_hash);\<newline>'' @
          ''        if (cached_shapes == nullptr) {\<newline>'' @
          ''            auto out_meta = at::meta::aminmax(self, dim);\<newline>'' @
          ''            cached_shapes = shape_cache->Add(dag_hash, std::make_shared<std::vector<Shape>>(std::initializer_list<Shape>{Shape(std::get<0>(out_meta).scalar_type(), std::get<0>(out_meta).sizes().vec()),Shape(std::get<1>(out_meta).scalar_type(), std::get<1>(out_meta).sizes().vec())}));\<newline>'' @
          ''\<newline>'' @
          ''        }\<newline>'' @
          ''        auto& shapes = *cached_shapes;\<newline>'' @
          ''        TORCH_INTERNAL_ASSERT(shapes.size() == 2);\<newline>'' @
          ''\<newline>'' @
          ''        auto node = torch::lazy::MakeNode<ir::ops::Aminmax>(lazy_self.GetIrValue(),\<newline>'' @
          ''                              dim,\<newline>'' @
          ''                              node_hash,\<newline>'' @
          ''                              dag_hash,\<newline>'' @
          ''                                                                                      std::move(shapes));\<newline>'' @
          ''        std::vector<torch::lazy::LazyTensor> lazy_tensors;\<newline>'' @
          ''        for (int i = 0; i < 2; i++) {\<newline>'' @
          ''            lazy_tensors.push_back(torch::lazy::LazyTensor::Create(torch::lazy::Value(node, i), lazy_self.GetDevice()));\<newline>'' @
          ''        }\<newline>'' @
          ''        auto result = torch::lazy::TupleAtenFromLtcTensors<2>(lazy_tensors);\<newline>'' @
          ''        return result;\<newline>'' @
          ''    };\<newline>'' @
          ''\<newline>'' @
          ''    '']\<close>
proof -
  have "\<exists>out. GenLazyNativeFuncDefinition_call sample_ext ''LazyNativeFunctions'' ''ts''
      ''torch::lazy::LazyTensor'' op_add = Inr out"
    unfolding GenLazyNativeFuncDefinition_call_def Let_def
    by (simp add: sample_eval op_add_def)
  then obtain o1 where c1: "GenLazyNativeFuncDefinition_call sample_ext ''LazyNativeFunctions'' ''ts''
      ''torch::lazy::LazyTensor'' op_add = Inr o1"
    by blast
  have "\<exists>out. GenLazyNativeFuncDefinition_call sample_ext ''LazyNativeFunctions'' ''ts''
      ''torch::lazy::LazyTensor'' op_aminmax = Inr out"
    unfolding GenLazyNativeFuncDefinition_call_def Let_def
    by (simp add: sample_eval op_aminmax_def)
  then obtain o2 where c2: "GenLazyNativeFuncDefinition_call sample_ext ''LazyNativeFunctions'' ''ts''
      ''torch::lazy::LazyTensor'' op_aminmax = Inr o2"
    by blast
  note th1 = shape_cache_wrapper[OF refl refl refl refl refl, of sample_ext op_add _ _ _
               "''LazyNativeFunctions''" "''ts''" "''torch::lazy::LazyTensor''"]
  note th2 = shape_cache_wrapper[OF refl refl refl refl refl, of sample_ext op_aminmax _ _ _
               "''LazyNativeFunctions''" "''ts''" "''torch::lazy::LazyTensor''"]
  from th1 c1 have \<open>o1 =
     [''    at::Tensor LazyNativeFunctions::add() {\<newline>'' @
      ''        TORCH_LAZY_FN_COUNTER("lazy::");\<newline>'' @
      ''        auto device = torch::lazy::GetBackendDevice(self, other);\<newline>'' @
      ''        torch::lazy::LazyTensor lazy_self = torch::lazy::GetLtcTensorOrCreateForWrappedNumber(self, *device);\<newline>'' @
      ''    torch::lazy::LazyTensor lazy_other = torch::lazy::GetLtcTensorOrCreateForWrappedNumber(other, *device);\<newline>'' @
      ''        torch::lazy::hash_t node_hash = torch::lazy::MHash(static_cast<uint32_t>(at::aten::add), alpha);\<newline>'' @
      ''        torch::lazy::hash_t dag_hash = torch::lazy::OperandHashes({lazy_self.GetIrValue(), lazy_other.GetIrValue()}, node_hash);\<newline>'' @
      ''        \<newline>'' @
      ''        auto shape_cache = torch::lazy::GetShapeCache();\<newline>'' @
      ''        auto cached_shapes = shape_cache->Get(dag_hash);\<newline>'' @
      ''        if (cached_shapes == nullptr) {\<newline>'' @
      ''            cached_shapes = shape_cache->Add(dag_hash, std::make_shared<std::vector<Shape>>(torch_lazy_tensors::ir::ops::compute_shape_add(self, other, alpha)));\<newline>'' @
      ''\<newline>'' @
      ''        }\<newline>'' @
      ''        auto& shapes = *cached_shapes;\<newline>'' @
      ''        TORCH_INTERNAL_ASSERT(shapes.size() == 1);\<newline>'' @
      ''\<newline>'' @
      ''        auto node = torch::lazy::MakeNode<ir::ops::AddTensor>(lazy_self.GetIrValue(),\<newline>'' @
      ''                              lazy_other.GetIrValue(),\<newline>'' @
      ''                              alpha,\<newline>'' @
      ''                              node_hash,\<newline>'' @
      ''                              dag_hash,\<newline>'' @
      ''                                                                                      std::move(shapes));\<newline>'' @
      ''        auto result = torch::lazy::CreateAtenFromLtcTensor(torch::lazy::LazyTensor::Create(std::move(node), lazy_self.GetDevice()));\<newline>'' @
      ''        return result;\<newline>'' @
      ''    };\<newline>'' @
      ''\<newline>'' @
      ''    '']\<close>
    by (simp add: op_add_def sample_ext_def valueT_def
          str_nat.simps[of "Suc 0"] digit_char_def)
  with c1 have a: \<open>GenLazyNativeFuncDefinition_call sample_ext ''LazyNativeFunctions'' ''ts''
      ''torch::lazy::LazyTensor'' op_add =
     Inr [''    at::Tensor LazyNativeFunctions::add() {\<newline>'' @
          ''        TORCH_LAZY_FN_COUNTER("lazy::");\<newline>'' @
          ''        auto device = torch::lazy::GetBackendDevice(self, other);\<newline>'' @
          ''        torch::lazy::LazyTensor lazy_self = torch::lazy::GetLtcTensorOrCreateForWrappedNumber(self, *device);\<newline>'' @
          ''    torch::lazy::LazyTensor lazy_other = torch::lazy::GetLtcTensorOrCreateForWrappedNumber(other, *device);\<newline>'' @
          ''        torch::lazy::hash_t node_hash = torch::lazy::MHash(static_cast<uint32_t>(at::aten::add), alpha);\<newline>'' @
          ''        torch::lazy::hash_t dag_hash = torch::lazy::OperandHashes({lazy_self.GetIrValue(), lazy_other.GetIrValue()}, node_hash);\<newline>'' @
          ''        \<newline>'' @
          ''        auto shape_cache = torch::lazy::GetShapeCache();\<newline>'' @
          ''        auto cached_shapes = shape_cache->Get(dag_hash);\<newline>'' @
          ''        if (cached_shapes == nullptr) {\<newline>'' @
          ''            cached_shapes = shape_cache->Add(dag_hash, std::make_shared<std::vector<Shape>>(torch_lazy_tensors::ir::ops::compute_shape_add(self, other, alpha)));\<newline>'' @
          ''\<newline>'' @
          ''        }\<newline>'' @
          ''        auto& shapes = *cached_shapes;\<newline>'' @
          ''        TORCH_INTERNAL_ASSERT(shapes.size() == 1);\<newline>'' @
          ''\<newline>'' @
          ''        auto node = torch::lazy::MakeNode<ir::ops::AddTensor>(lazy_self.GetIrValue(),\<newline>'' @
          ''                              lazy_other.GetIrValue(),\<newline>'' @
          ''                              alpha,\<newline>'' @
          ''                              node_hash,\<newline>'' @
          ''                              dag_hash,\<newline>'' @
          ''                                                                                      std::move(shapes));\<newline>'' @
          ''        auto result = torch::lazy::CreateAtenFromLtcTensor(torch::lazy::LazyTensor::Create(std::move(node), lazy_self.GetDevice()));\<newline>'' @
          ''        return result;\<newline>'' @
          ''    };\<newline>'' @
          ''\<newline>'' @
          ''    '']\<close>
    by simp
  from th2 c2 have \<open>o2 =
     [''    at::Tensor LazyNativeFunctions::aminmax() {\<newline>'' @
      ''        TORCH_LAZY_FN_COUNTER("lazy::");\<newline>'' @
      ''        auto device = torch::lazy::GetBackendDevice(self);\<newline>'' @
      ''        torch::lazy::LazyTensor lazy_self = torch::lazy::GetLtcTensorOrCreateForWrappedNumber(self, *device);\<newline>'' @
      ''        torch::lazy::hash_t node_hash = torch::lazy::MHash(static_cast<uint32_t>(at::aten::aminmax), dim);\<newline>'' @
      ''        torch::lazy::hash_t dag_hash = torch::lazy::OperandHashes({lazy_self.GetIrValue()}, node_hash);\<newline>'' @
      ''        \<newline>'' @
      ''        auto shape_cache = torch::lazy::GetShapeCache();\<newline>'' @
      ''        auto cached_shapes = shape_cache->Get(dag_hash);\<newline>'' @
      ''        if (cached_shapes == nullptr) {\<newline>'' @
      ''            auto out_meta = at::meta::aminmax(self, dim);\<newline>'' @
      ''            cached_shapes = shape_cache->Add(dag_hash, std::make_shared<std::vector<Shape>>(std::initializer_list<Shape>{Shape(std::get<0>(out_meta).scalar_type(), std::get<0>(out_meta).sizes().vec()),Shape(std::get<1>(out_meta).scalar_type(), std::get<1>(out_meta).sizes().vec())}));\<newline>'' @
      ''\<newline>'' @
      ''        }\<newline>'' @
      ''        auto& shapes = *cached_shapes;\<newline>'' @
      ''        TORCH_INTERNAL_ASSERT(shapes.size() == 2);\<newline>'' @
      ''\<newline>'' @
      ''        auto node = torch::lazy::MakeNode<ir::ops::Aminmax>(lazy_self.GetIrValue(),\<newline>'' @
      ''                              dim,\<newline>'' @
      ''                              node_hash,\<newline>'' @
      ''                              dag_hash,\<newline>'' @
      ''                                                                                      std::move(shapes));\<newline>'' @
      ''        std::vector<torch::lazy::LazyTensor> lazy_tensors;\<newline>'' @
      ''        for (int i = 0; i < 2; i++) {\<newline>'' @
      ''            lazy_tensors.push_back(torch::lazy::LazyTensor::Create(torch::lazy::Value(node, i), lazy_self.GetDevice()));\<newline>'' @
      ''        }\<newline>'' @
      ''        auto result = torch::lazy::TupleAtenFromLtcTensors<2>(lazy_tensors);\<newline>'' @
      ''        return result;\<newline>'' @
      ''    };\<newline>'' @
      ''\<newline>'' @
      ''    '']\<close>
    by (simp add: op_aminmax_def sample_ext_def valueT_def
          str_nat.simps[of "Suc 0"] str_nat.simps[of 0] str_nat.simps[of 2]
          str_nat.simps[of "Suc (Suc 0)"] digit_char_def)
  with c2 have b: \<open>GenLazyNativeFuncDefinition_call sample_ext ''LazyNativeFunctions'' ''ts''
      ''torch::lazy::LazyTensor'' op_aminmax =
     Inr [''    at::Tensor LazyNativeFunctions::aminmax() {\<newline>'' @
          ''        TORCH_LAZY_FN_COUNTER("lazy::");\<newline>'' @
          ''        auto device = torch::lazy::GetBackendDevice(self);\<newline>'' @
          ''        torch::lazy::LazyTensor lazy_self = torch::lazy::GetLtcTensorOrCreateForWrappedNumber(self, *device);\<newline>'' @
          ''        torch::lazy::hash_t node_hash = torch::lazy::MHash(static_cast<uint32_t>(at::aten::aminmax), dim);\<newline>'' @
          ''        torch::lazy::hash_t dag_hash = torch::lazy::OperandHashes({lazy_self.GetIrValue()}, node_hash);\<newline>'' @
          ''        \<newline>'' @
          ''        auto shape_cache = torch::lazy::GetShapeCache();\<newline>'' @
          ''        auto cached_shapes = shape_cache->Get(dag_hash);\<newline>'' @
          ''        if (cached_shapes == nullptr) {\<newline>'' @
          ''            auto out_meta = at::meta::aminmax(self, dim);\<newline>'' @
          ''            cached_shapes = shape_cache->Add(dag_hash, std::make_shared<std::vector<Shape>>(std::initializer_list<Shape>{Shape(std::get<0>(out_meta).scalar_type(), std::get<0>(out_meta).sizes().vec()),Shape(std::get<1>(out_meta).scalar_type(), std::get<1>(out_meta).sizes().vec())}));\<newline>'' @
          ''\<newline>'' @
          ''        }\<newline>'' @
          ''        auto& shapes = *cached_shapes;\<newline>'' @
          ''        TORCH_INTERNAL_ASSERT(shapes.size() == 2);\<newline>'' @
          ''\<newline>'' @
          ''        auto node = torch::lazy::MakeNode<ir::ops::Aminmax>(lazy_self.GetIrValue(),\<newline>'' @
          ''                              dim,\<newline>'' @
          ''                              node_hash,\<newline>'' @
          ''                              dag_hash,\<newline>'' @
          ''                                                                                      std::move(shapes));\<newline>'' @
          ''        std::vector<torch::lazy::LazyTensor> lazy_tensors;\<newline>'' @
          ''        for (int i = 0; i < 2; i++) {\<newline>'' @
          ''            lazy_tensors.push_back(torch::lazy::LazyTensor::Create(torch::lazy::Value(node, i), lazy_self.GetDevice()));\<newline>'' @
          ''        }\<newline>'' @
          ''        auto result = torch::lazy::TupleAtenFromLtcTensors<2>(lazy_tensors);\<newline>'' @
          ''        return result;\<newline>'' @
          ''    };\<newline>'' @
          ''\<newline>'' @
          ''    '']\<close>
    by simp
  from a b show ?thesis by blast
qed

subsection \<open>The constructor of the node class\<close>





subsection \<open>Operator identity in the two emitters\<close>




subsection \<open>Hash expressions\<close>

text \<open>Different sequences of names give different hash lines.\<close>

lemma node_hash_text_inj:
  assumes "is_identifier a1" and "is_identifier a2"
    and "\<forall>t\<in>set sc1. is_identifier (name t)" and "\<forall>t\<in>set sc2. is_identifier (name t)"
    and "''torch::lazy::hash_t node_hash = torch::lazy::MHash('' @
         join '', '' ((''static_cast<uint32_t>(at::aten::'' @ a1 @ '')'') # map name sc1) @ '');'' =
         ''torch::lazy::hash_t node_hash = torch::lazy::MHash('' @
         join '', '' ((''static_cast<uint32_t>(at::aten::'' @ a2 @ '')'') # map name sc2) @ '');''"
  shows "a1 = a2 \<and> map name sc1 = map name sc2"
proof -
  let ?h = "\<lambda>a. ''static_cast<uint32_t>(at::aten::'' @ a @ '')''"
  from assms(5) have "join '', '' (?h a1 # map name sc1) @ '');'' = join '', '' (?h a2 # map name sc2) @ '');''"
    by simp
  then have j: "join '', '' (?h a1 # map name sc1) = join '', '' (?h a2 # map name sc2)"
    by (simp only: append_same_eq)
  have c1: "\<forall>z\<in>set (?h a1 # map name sc1). CHR '','' \<notin> set z"
    using assms(1,3) is_identifier_no_comma by auto
  have c2: "\<forall>z\<in>set (?h a2 # map name sc2). CHR '','' \<notin> set z"
    using assms(2,4) is_identifier_no_comma by auto
  from join_Cons_inj[OF c1 c2 j] show ?thesis by simp
qed

lemma dag_hash_text_inj:
  assumes "\<forall>v\<in>set ops1. is_identifier (name v)" and "\<forall>v\<in>set ops2. is_identifier (name v)"
    and "''torch::lazy::hash_t dag_hash = torch::lazy::OperandHashes({'' @
         join '', ''
           (map (\<lambda>v. ''lazy_'' @ name v @
                        (if is_OptionalCType (type v)
                         then '' ? lazy_'' @ name v @ ''.GetIrValue() : torch::lazy::Value()''
                         else ''.GetIrValue()''))
              ops1) @
         ''}, node_hash);'' =
         ''torch::lazy::hash_t dag_hash = torch::lazy::OperandHashes({'' @
         join '', ''
           (map (\<lambda>v. ''lazy_'' @ name v @
                        (if is_OptionalCType (type v)
                         then '' ? lazy_'' @ name v @ ''.GetIrValue() : torch::lazy::Value()''
                         else ''.GetIrValue()''))
              ops2) @
         ''}, node_hash);''"
  shows "map name ops1 = map name ops2"
proof -
  let ?b = "(\<lambda>v. ''lazy_'' @ name v @
                           (if is_OptionalCType (type v)
                            then '' ? lazy_'' @ name v @ ''.GetIrValue() : torch::lazy::Value()''
                            else ''.GetIrValue()''))"
  from assms(3) have "join '', '' (map ?b ops1) @ ''}, node_hash);'' = join '', '' (map ?b ops2) @ ''}, node_hash);''"
    by simp
  then have j: "join '', '' (map ?b ops1) = join '', '' (map ?b ops2)"
    by (simp only: append_same_eq)
  have c1: "\<forall>x\<in>set (map ?b ops1). CHR '','' \<notin> set x \<and> x \<noteq> []"
    using assms(1) is_identifier_no_comma by auto
  have c2: "\<forall>x\<in>set (map ?b ops2). CHR '','' \<notin> set x \<and> x \<noteq> []"
    using assms(2) is_identifier_no_comma by auto
  from join_inj[OF c1 c2 j] have "map ?b ops1 = map ?b ops2" .
  from map_bridge_inj[OF assms(1,2) this] show ?thesis .
qed

text \<open>
  Claim C2, as the code has it.  Whenever the dispatch function emitter emits, the text is
  the one written out below.  Its \<open>node_hash\<close> line mixes
  \<open>static_cast<uint32_t>(at::aten::<name>)\<close> with the names of all scalar arguments in
  declaration order.  Its \<open>dag_hash\<close> line mixes \<open>node_hash\<close> with the bridge-value
  forms, as the bridge-value builder returns them and in declaration order, of the
  value-type arguments whose name is not among the promoted scalars: a promoted scalar is
  left out of \<open>dag_hash\<close>.  With identifiers as names, two scalar lists with different
  sequences of names give different \<open>node_hash\<close> lines, and two lists of non-promoted
  value arguments with different sequences of names give different \<open>dag_hash\<close> lines.
\<close>

theorem hash_expressions_follow_declaration_order:
  assumes s: "s = func f"
    and vts: "vts = filter (\<lambda>t. isValueType ext (type t)) (all_types s)"
    and scs: "scs = filter (\<lambda>t. \<not> isValueType ext (type t)) (all_types s)"
    and ops: "ops = filter (\<lambda>v. name v \<notin> set (wrapped_scalar_names s)) vts"
    and n: "n = length (returns s)"
  shows \<open>(\<forall>out. GenLazyNativeFuncDefinition_call ext class_method_name backend_index tensor_class f = Inr out \<longrightarrow>
            map (lazy_value_string_from_optionals ext) ops =
              map (\<lambda>v. Inr (Some (''lazy_'' @ name v @
                         (if is_OptionalCType (type v)
                          then '' ? lazy_'' @ name v @ ''.GetIrValue() : torch::lazy::Value()''
                          else ''.GetIrValue()'')))) ops \<and>
            out =
              [''    '' @
               kernel_signature_decl ext f backend_index (class_method_name @ ''::'' @ aten_name s) @
               '' {\<newline>        TORCH_LAZY_FN_COUNTER("lazy::");\<newline>        '' @
               ''auto device = torch::lazy::GetBackendDevice('' @ join '', '' (map name vts) @ '');'' @
               ''\<newline>        '' @
               join ''\<newline>    ''
                 (map (\<lambda>t. if is_OptionalCType (type t)
                            then ''    '' @ tensor_class @ '' lazy_'' @ name t @
                                 '' = torch::lazy::TryGetLtcTensor('' @ name t @ ''.value_or(at::Tensor()));''
                            else tensor_class @ '' lazy_'' @ name t @
                                 '' = torch::lazy::GetLtcTensorOrCreateForWrappedNumber('' @ name t @ '', *device);'')
                    ops) @
               ''\<newline>        '' @
               ''torch::lazy::hash_t node_hash = torch::lazy::MHash('' @
               join '', '' ((''static_cast<uint32_t>(at::aten::'' @ aten_name s @ '')'') # map name scs) @ '');'' @
               ''\<newline>        '' @
               ''torch::lazy::hash_t dag_hash = torch::lazy::OperandHashes({'' @
               join '', ''
                 (map (\<lambda>v. ''lazy_'' @ name v @
                              (if is_OptionalCType (type v)
                               then '' ? lazy_'' @ name v @ ''.GetIrValue() : torch::lazy::Value()''
                               else ''.GetIrValue()''))
                    ops) @
               ''}, node_hash);'' @
               ''\<newline>        '' @
               ''\<newline>        auto shape_cache = torch::lazy::GetShapeCache();\<newline>        auto cached_shapes = shape_cache->Get(dag_hash);\<newline>        if (cached_shapes == nullptr) {'' @
               (if structured f \<or> structured_delegate f \<noteq> None
                then ''\<newline>            auto out_meta = at::meta::'' @ aten_name s @ ''('' @
                     join '', '' (map name (all_types s)) @ '');\<newline>            '' @
                     (if n > 1
                      then ''cached_shapes = shape_cache->Add(dag_hash, std::make_shared<std::vector<Shape>>(std::initializer_list<Shape>{'' @
                           join '',''
                             (map (\<lambda>i. ''Shape(std::get<'' @ str_nat i @ ''>(out_meta).scalar_type(), std::get<'' @
                                        str_nat i @ ''>(out_meta).sizes().vec())'')
                                [0..<n]) @
                           ''}));''
                      else ''cached_shapes = shape_cache->Add(dag_hash, std::make_shared<std::vector<Shape>>(std::initializer_list<Shape>{Shape(out_meta.scalar_type(), out_meta.sizes().vec())}));'') @
                     ''\<newline>''
                else ''\<newline>            cached_shapes = shape_cache->Add(dag_hash, std::make_shared<std::vector<Shape>>(torch_lazy_tensors::ir::ops::compute_shape_'' @
                     base_name s @ ''('' @ join '', '' (map name (all_types s)) @ '')));\<newline>'') @
               ''\<newline>        }\<newline>        auto& shapes = *cached_shapes;\<newline>        TORCH_INTERNAL_ASSERT(shapes.size() == '' @
               str_nat n @ '');\<newline>'' @
               ''\<newline>        '' @
               ''auto node = torch::lazy::MakeNode<ir::ops::'' @ node_name s @ ''>('' @
               join '',\<newline>                              ''
                 (map (\<lambda>arg.
                  if isValueType ext (type arg)
                  then (if is_OptionalCType (type arg)
                        then (if name arg \<in> set (wrapped_scalar_names s)
                              then name arg @
                                   '' ? c10::make_optional(torch::lazy::LazyGraphExecutor::Get()->GetIrValueForScalarFromCodegen(*'' @
                                   name arg @ '')) : c10::nullopt''
                              else ''lazy_'' @ name arg @ '' ? c10::make_optional(lazy_'' @ name arg @
                                   ''.GetIrValue()) : c10::nullopt'')
                        else (if name arg \<in> set (wrapped_scalar_names s)
                              then ''torch::lazy::LazyGraphExecutor::Get()->GetIrValueForScalarFromCodegen('' @
                                   name arg @ '')''
                              else ''lazy_'' @ name arg @ ''.GetIrValue()''))
                  else (case type arg of
                          VectorCType (BaseCType ty) \<Rightarrow>
                            ''std::vector<'' @ ty @ ''>('' @ name arg @ ''.begin(), '' @ name arg @ ''.end())''
                        | OptionalCType (VectorCType (BaseCType ty)) \<Rightarrow>
                            ''torch::lazy::ToOptionalVector<'' @ ty @ ''>('' @ name arg @ '')''
                        | _ \<Rightarrow> name arg))
                    (all_types s) @
                  [''node_hash'', ''dag_hash'']) @
               '',\<newline>                                                                                      std::move(shapes));'' @
               ''\<newline>        '' @
               (if inplace s
                then ''lazy_'' @ name (hd vts) @ ''.SetInPlaceIrValue(node);\<newline>        auto& result = '' @
                     name (hd vts) @ '';''
                else if n > 1
                then ''std::vector<'' @ tensor_class @ ''> lazy_tensors;\<newline>        for (int i = 0; i < '' @
                     str_nat n @
                     ''; i++) {\<newline>            lazy_tensors.push_back(torch::lazy::LazyTensor::Create(torch::lazy::Value(node, i), lazy_'' @
                     name (hd vts) @
                     ''.GetDevice()));\<newline>        }\<newline>        auto result = torch::lazy::TupleAtenFromLtcTensors<'' @
                     str_nat n @ ''>(lazy_tensors);''
                else ''auto result = torch::lazy::CreateAtenFromLtcTensor(torch::lazy::LazyTensor::Create(std::move(node), lazy_'' @
                     name (hd vts) @ ''.GetDevice()));'') @
               ''\<newline>        return result;\<newline>    };\<newline>\<newline>    '']) \<and>
         (is_identifier a1 \<and> is_identifier a2 \<and>
          (\<forall>t\<in>set sc1 \<union> set sc2. is_identifier (name t)) \<and> map name sc1 \<noteq> map name sc2 \<longrightarrow>
            ''torch::lazy::hash_t node_hash = torch::lazy::MHash('' @
            join '', '' ((''static_cast<uint32_t>(at::aten::'' @ a1 @ '')'') # map name sc1) @ '');'' \<noteq>
            ''torch::lazy::hash_t node_hash = torch::lazy::MHash('' @
            join '', '' ((''static_cast<uint32_t>(at::aten::'' @ a2 @ '')'') # map name sc2) @ '');'') \<and>
         ((\<forall>v\<in>set ops1 \<union> set ops2. is_identifier (name v)) \<and> map name ops1 \<noteq> map name ops2 \<longrightarrow>
            ''torch::lazy::hash_t dag_hash = torch::lazy::OperandHashes({'' @
            join '', ''
              (map (\<lambda>v. ''lazy_'' @ name v @
                           (if is_OptionalCType (type v)
                            then '' ? lazy_'' @ name v @ ''.GetIrValue() : torch::lazy::Value()''
                            else ''.GetIrValue()''))
                 ops1) @
            ''}, node_hash);'' \<noteq>
            ''torch::lazy::hash_t dag_hash = torch::lazy::OperandHashes({'' @
            join '', ''
              (map (\<lambda>v. ''lazy_'' @ name v @
                           (if is_OptionalCType (type v)
                            then '' ? lazy_'' @ name v @ ''.GetIrValue() : torch::lazy::Value()''
                            else ''.GetIrValue()''))
                 ops2) @
            ''}, node_hash);'')\<close>
proof -
  have A: \<open>map (lazy_value_string_from_optionals ext) ops =
              map (\<lambda>v. Inr (Some (''lazy_'' @ name v @
                         (if is_OptionalCType (type v)
                          then '' ? lazy_'' @ name v @ ''.GetIrValue() : torch::lazy::Value()''
                          else ''.GetIrValue()'')))) ops \<and>
            out =
              [''    '' @
               kernel_signature_decl ext f backend_index (class_method_name @ ''::'' @ aten_name s) @
               '' {\<newline>        TORCH_LAZY_FN_COUNTER("lazy::");\<newline>        '' @
               ''auto device = torch::lazy::GetBackendDevice('' @ join '', '' (map name vts) @ '');'' @
               ''\<newline>        '' @
               join ''\<newline>    ''
                 (map (\<lambda>t. if is_OptionalCType (type t)
                            then ''    '' @ tensor_class @ '' lazy_'' @ name t @
                                 '' = torch::lazy::TryGetLtcTensor('' @ name t @ ''.value_or(at::Tensor()));''
                            else tensor_class @ '' lazy_'' @ name t @
                                 '' = torch::lazy::GetLtcTensorOrCreateForWrappedNumber('' @ name t @ '', *device);'')
                    ops) @
               ''\<newline>        '' @
               ''torch::lazy::hash_t node_hash = torch::lazy::MHash('' @
               join '', '' ((''static_cast<uint32_t>(at::aten::'' @ aten_name s @ '')'') # map name scs) @ '');'' @
               ''\<newline>        '' @
               ''torch::lazy::hash_t dag_hash = torch::lazy::OperandHashes({'' @
               join '', ''
                 (map (\<lambda>v. ''lazy_'' @ name v @
                              (if is_OptionalCType (type v)
                               then '' ? lazy_'' @ name v @ ''.GetIrValue() : torch::lazy::Value()''
                               else ''.GetIrValue()''))
                    ops) @
               ''}, node_hash);'' @
               ''\<newline>        '' @
               ''\<newline>        auto shape_cache = torch::lazy::GetShapeCache();\<newline>        auto cached_shapes = shape_cache->Get(dag_hash);\<newline>        if (cached_shapes == nullptr) {'' @
               (if structured f \<or> structured_delegate f \<noteq> None
                then ''\<newline>            auto out_meta = at::meta::'' @ aten_name s @ ''('' @
                     join '', '' (map name (all_types s)) @ '');\<newline>            '' @
                     (if n > 1
                      then ''cached_shapes = shape_cache->Add(dag_hash, std::make_shared<std::vector<Shape>>(std::initializer_list<Shape>{'' @
                           join '',''
                             (map (\<lambda>i. ''Shape(std::get<'' @ str_nat i @ ''>(out_meta).scalar_type(), std::get<'' @
                                        str_nat i @ ''>(out_meta).sizes().vec())'')
                                [0..<n]) @
                           ''}));''
                      else ''cached_shapes = shape_cache->Add(dag_hash, std::make_shared<std::vector<Shape>>(std::initializer_list<Shape>{Shape(out_meta.scalar_type(), out_meta.sizes().vec())}));'') @
                     ''\<newline>''
                else ''\<newline>            cached_shapes = shape_cache->Add(dag_hash, std::make_shared<std::vector<Shape>>(torch_lazy_tensors::ir::ops::compute_shape_'' @
                     base_name s @ ''('' @ join '', '' (map name (all_types s)) @ '')));\<newline>'') @
               ''\<newline>        }\<newline>        auto& shapes = *cached_shapes;\<newline>        TORCH_INTERNAL_ASSERT(shapes.size() == '' @
               str_nat n @ '');\<newline>'' @
               ''\<newline>        '' @
               ''auto node = torch::lazy::MakeNode<ir::ops::'' @ node_name s @ ''>('' @
               join '',\<newline>                              ''
                 (map (\<lambda>arg.
                  if isValueType ext (type arg)
                  then (if is_OptionalCType (type arg)
                        then (if name arg \<in> set (wrapped_scalar_names s)
                              then name arg @
                                   '' ? c10::make_optional(torch::lazy::LazyGraphExecutor::Get()->GetIrValueForScalarFromCodegen(*'' @
                                   name arg @ '')) : c10::nullopt''
                              else ''lazy_'' @ name arg @ '' ? c10::make_optional(lazy_'' @ name arg @
                                   ''.GetIrValue()) : c10::nullopt'')
                        else (if name arg \<in> set (wrapped_scalar_names s)
                              then ''torch::lazy::LazyGraphExecutor::Get()->GetIrValueForScalarFromCodegen('' @
                                   name arg @ '')''
                              else ''lazy_'' @ name arg @ ''.GetIrValue()''))
                  else (case type arg of
                          VectorCType (BaseCType ty) \<Rightarrow>
                            ''std::vector<'' @ ty @ ''>('' @ name arg @ ''.begin(), '' @ name arg @ ''.end())''
                        | OptionalCType (VectorCType (BaseCType ty)) \<Rightarrow>
                            ''torch::lazy::ToOptionalVector<'' @ ty @ ''>('' @ name arg @ '')''
                        | _ \<Rightarrow> name arg))
                    (all_types s) @
                  [''node_hash'', ''dag_hash'']) @
               '',\<newline>                                                                                      std::move(shapes));'' @
               ''\<newline>        '' @
               (if inplace s
                then ''lazy_'' @ name (hd vts) @ ''.SetInPlaceIrValue(node);\<newline>        auto& result = '' @
                     name (hd vts) @ '';''
                else if n > 1
                then ''std::vector<'' @ tensor_class @ ''> lazy_tensors;\<newline>        for (int i = 0; i < '' @
                     str_nat n @
                     ''; i++) {\<newline>            lazy_tensors.push_back(torch::lazy::LazyTensor::Create(torch::lazy::Value(node, i), lazy_'' @
                     name (hd vts) @
                     ''.GetDevice()));\<newline>        }\<newline>        auto result = torch::lazy::TupleAtenFromLtcTensors<'' @
                     str_nat n @ ''>(lazy_tensors);''
                else ''auto result = torch::lazy::CreateAtenFromLtcTensor(torch::lazy::LazyTensor::Create(std::move(node), lazy_'' @
                     name (hd vts) @ ''.GetDevice()));'') @
               ''\<newline>        return result;\<newline>    };\<newline>\<newline>    '']\<close>
    if c: "GenLazyNativeFuncDefinition_call ext class_method_name backend_index tensor_class f = Inr out" for out
    using dispatch_emitted[OF c s vts scs ops n] by blast
  have B: "is_identifier a1 \<and> is_identifier a2 \<and>
          (\<forall>t\<in>set sc1 \<union> set sc2. is_identifier (name t)) \<and> map name sc1 \<noteq> map name sc2 \<longrightarrow>
            ''torch::lazy::hash_t node_hash = torch::lazy::MHash('' @
            join '', '' ((''static_cast<uint32_t>(at::aten::'' @ a1 @ '')'') # map name sc1) @ '');'' \<noteq>
            ''torch::lazy::hash_t node_hash = torch::lazy::MHash('' @
            join '', '' ((''static_cast<uint32_t>(at::aten::'' @ a2 @ '')'') # map name sc2) @ '');''"
    using node_hash_text_inj[of a1 a2 sc1 sc2] by blast
  have C: "(\<forall>v\<in>set ops1 \<union> set ops2. is_identifier (name v)) \<and> map name ops1 \<noteq> map name ops2 \<longrightarrow>
            ''torch::lazy::hash_t dag_hash = torch::lazy::OperandHashes({'' @
            join '', ''
              (map (\<lambda>v. ''lazy_'' @ name v @
                           (if is_OptionalCType (type v)
                            then '' ? lazy_'' @ name v @ ''.GetIrValue() : torch::lazy::Value()''
                            else ''.GetIrValue()''))
                 ops1) @
            ''}, node_hash);'' \<noteq>
            ''torch::lazy::hash_t dag_hash = torch::lazy::OperandHashes({'' @
            join '', ''
              (map (\<lambda>v. ''lazy_'' @ name v @
                           (if is_OptionalCType (type v)
                            then '' ? lazy_'' @ name v @ ''.GetIrValue() : torch::lazy::Value()''
                            else ''.GetIrValue()''))
                 ops2) @
            ''}, node_hash);''"
    using dag_hash_text_inj[of ops1 ops2] by blast
  from A B C show ?thesis by blast
qed

text \<open>
  Witness for C2: the whole text emitted for \<open>layer_norm\<close>, with its three operands and
  its scalar, and the effect of swapping two scalars or two operands.
\<close>

theorem hash_expressions_follow_declaration_order_witness:
  \<open>GenLazyNativeFuncDefinition_call sample_ext ''LazyNativeFunctions'' ''ts''
      ''torch::lazy::LazyTensor'' op_layer_norm =
     Inr [''    at::Tensor LazyNativeFunctions::layer_norm() {\<newline>'' @
          ''        TORCH_LAZY_FN_COUNTER("lazy::");\<newline>'' @
          ''        auto device = torch::lazy::GetBackendDevice(input, weight, bias);\<newline>'' @
          ''        torch::lazy::LazyTensor lazy_input = torch::lazy::GetLtcTensorOrCreateForWrappedNumber(input, *device);\<newline>'' @
          ''        torch::lazy::LazyTensor lazy_weight = torch::lazy::TryGetLtcTensor(weight.value_or(at::Tensor()));\<newline>'' @
          ''        torch::lazy::LazyTensor lazy_bias = torch::lazy::TryGetLtcTensor(bias.value_or(at::Tensor()));\<newline>'' @
          ''        torch::lazy::hash_t node_hash = torch::lazy::MHash(static_cast<uint32_t>(at::aten::layer_norm), eps);\<newline>'' @
          ''        torch::lazy::hash_t dag_hash = torch::lazy::OperandHashes({lazy_input.GetIrValue(), lazy_weight ? lazy_weight.GetIrValue() : torch::lazy::Value(), lazy_bias ? lazy_bias.GetIrValue() : torch::lazy::Value()}, node_hash);\<newline>'' @
          ''        \<newline>'' @
          ''        auto shape_cache = torch::lazy::GetShapeCache();\<newline>'' @
          ''        auto cached_shapes = shape_cache->Get(dag_hash);\<newline>'' @
          ''        if (cached_shapes == nullptr) {\<newline>'' @
          ''            cached_shapes = shape_cache->Add(dag_hash, std::make_shared<std::vector<Shape>>(torch_lazy_tensors::ir::ops::compute_shape_layer_norm(input, weight, bias, eps)));\<newline>'' @
          ''\<newline>'' @
          ''        }\<newline>'' @
          ''        auto& shapes = *cached_shapes;\<newline>'' @
          ''        TORCH_INTERNAL_ASSERT(shapes.size() == 1);\<newline>'' @
          ''\<newline>'' @
          ''        auto node = torch::lazy::MakeNode<ir::ops::LayerNorm>(lazy_input.GetIrValue(),\<newline>'' @
          ''                              lazy_weight ? c10::make_optional(lazy_weight.GetIrValue()) : c10::nullopt,\<newline>'' @
          ''                              lazy_bias ? c10::make_optional(lazy_bias.GetIrValue()) : c10::nullopt,\<newline>'' @
          ''                              eps,\<newline>'' @
          ''                              node_hash,\<newline>'' @
          ''                              dag_hash,\<newline>'' @
          ''                                                                                      std::move(shapes));\<newline>'' @
          ''        auto result = torch::lazy::CreateAtenFromLtcTensor(torch::lazy::LazyTensor::Create(std::move(node), lazy_input.GetDevice()));\<newline>'' @
          ''        return result;\<newline>'' @
          ''    };\<newline>'' @
          ''\<newline>'' @
          ''    ''] \<and>
   ''torch::lazy::hash_t node_hash = torch::lazy::MHash(static_cast<uint32_t>(at::aten::add), alpha, beta);'' \<noteq>
   ''torch::lazy::hash_t node_hash = torch::lazy::MHash(static_cast<uint32_t>(at::aten::add), beta, alpha);'' \<and>
   ''torch::lazy::hash_t dag_hash = torch::lazy::OperandHashes({lazy_self.GetIrValue(), lazy_other.GetIrValue()}, node_hash);'' \<noteq>
   ''torch::lazy::hash_t dag_hash = torch::lazy::OperandHashes({lazy_other.GetIrValue(), lazy_self.GetIrValue()}, node_hash);''\<close>
proof -
  let ?self = "\<lparr>name = ''self'', type = valueT\<rparr>"
  let ?other = "\<lparr>name = ''other'', type = valueT\<rparr>"
  let ?alpha = "\<lparr>name = ''alpha'', type = BaseCType ''at::Scalar''\<rparr>"
  let ?beta = "\<lparr>name = ''beta'', type = BaseCType ''at::Scalar''\<rparr>"
  note th = hash_expressions_follow_declaration_order
              [where ext = sample_ext and f = op_layer_norm
                 and class_method_name = "''LazyNativeFunctions''" and backend_index = "''ts''"
                 and tensor_class = "''torch::lazy::LazyTensor''"
                 and ?a1.0 = "''add''" and ?a2.0 = "''add''"
                 and ?sc1.0 = "[?alpha, ?beta]" and ?sc2.0 = "[?beta, ?alpha]"
                 and ?ops1.0 = "[?self, ?other]" and ?ops2.0 = "[?other, ?self]",
               OF refl refl refl refl refl]
  have idents: "is_identifier ''add''" "is_identifier ''alpha''" "is_identifier ''beta''"
    "is_identifier ''self''" "is_identifier ''other''"
    by (simp_all add: is_identifier_def identifier_char_def)
  have "\<exists>out. GenLazyNativeFuncDefinition_call sample_ext ''LazyNativeFunctions'' ''ts''
      ''torch::lazy::LazyTensor'' op_layer_norm = Inr out"
    unfolding GenLazyNativeFuncDefinition_call_def Let_def
    by (simp add: sample_eval op_layer_norm_def)
  then obtain out where c: "GenLazyNativeFuncDefinition_call sample_ext ''LazyNativeFunctions'' ''ts''
      ''torch::lazy::LazyTensor'' op_layer_norm = Inr out"
    by blast
  from th c have \<open>out =
     [''    at::Tensor LazyNativeFunctions::layer_norm() {\<newline>'' @
      ''        TORCH_LAZY_FN_COUNTER("lazy::");\<newline>'' @
      ''        auto device = torch::lazy::GetBackendDevice(input, weight, bias);\<newline>'' @
      ''        torch::lazy::LazyTensor lazy_input = torch::lazy::GetLtcTensorOrCreateForWrappedNumber(input, *device);\<newline>'' @
      ''        torch::lazy::LazyTensor lazy_weight = torch::lazy::TryGetLtcTensor(weight.value_or(at::Tensor()));\<newline>'' @
      ''        torch::lazy::LazyTensor lazy_bias = torch::lazy::TryGetLtcTensor(bias.value_or(at::Tensor()));\<newline>'' @
      ''        torch::lazy::hash_t node_hash = torch::lazy::MHash(static_cast<uint32_t>(at::aten::layer_norm), eps);\<newline>'' @
      ''        torch::lazy::hash_t dag_hash = torch::lazy::OperandHashes({lazy_input.GetIrValue(), lazy_weight ? lazy_weight.GetIrValue() : torch::lazy::Value(), lazy_bias ? lazy_bias.GetIrValue() : torch::lazy::Value()}, node_hash);\<newline>'' @
      ''        \<newline>'' @
      ''        auto shape_cache = torch::lazy::GetShapeCache();\<newline>'' @
      ''        auto cached_shapes = shape_cache->Get(dag_hash);\<newline>'' @
      ''        if (cached_shapes == nullptr) {\<newline>'' @
      ''            cached_shapes = shape_cache->Add(dag_hash, std::make_shared<std::vector<Shape>>(torch_lazy_tensors::ir::ops::compute_shape_layer_norm(input, weight, bias, eps)));\<newline>'' @
      ''\<newline>'' @
      ''        }\<newline>'' @
      ''        auto& shapes = *cached_shapes;\<newline>'' @
      ''        TORCH_INTERNAL_ASSERT(shapes.size() == 1);\<newline>'' @
      ''\<newline>'' @
      ''        auto node = torch::lazy::MakeNode<ir::ops::LayerNorm>(lazy_input.GetIrValue(),\<newline>'' @
      ''                              lazy_weight ? c10::make_optional(lazy_weight.GetIrValue()) : c10::nullopt,\<newline>'' @
      ''                              lazy_bias ? c10::make_optional(lazy_bias.GetIrValue()) : c10::nullopt,\<newline>'' @
      ''                              eps,\<newline>'' @
      ''                              node_hash,\<newline>'' @
      ''                              dag_hash,\<newline>'' @
      ''                                                                                      std::move(shapes));\<newline>'' @
      ''        auto result = torch::lazy::CreateAtenFromLtcTensor(torch::lazy::LazyTensor::Create(std::move(node), lazy_input.GetDevice()));\<newline>'' @
      ''        return result;\<newline>'' @
      ''    };\<newline>'' @
      ''\<newline>'' @
      ''    '']\<close>
    by (simp add: op_layer_norm_def sample_ext_def valueT_def
          str_nat.simps[of "Suc 0"] digit_char_def)
  with c have a: \<open>GenLazyNativeFuncDefinition_call sample_ext ''LazyNativeFunctions'' ''ts''
      ''torch::lazy::LazyTensor'' op_layer_norm =
     Inr [''    at::Tensor LazyNativeFunctions::layer_norm() {\<newline>'' @
          ''        TORCH_LAZY_FN_COUNTER("lazy::");\<newline>'' @
          ''        auto device = torch::lazy::GetBackendDevice(input, weight, bias);\<newline>'' @
          ''        torch::lazy::LazyTensor lazy_input = torch::lazy::GetLtcTensorOrCreateForWrappedNumber(input, *device);\<newline>'' @
          ''        torch::lazy::LazyTensor lazy_weight = torch::lazy::TryGetLtcTensor(weight.value_or(at::Tensor()));\<newline>'' @
          ''        torch::lazy::LazyTensor lazy_bias = torch::lazy::TryGetLtcTensor(bias.value_or(at::Tensor()));\<newline>'' @
          ''        torch::lazy::hash_t node_hash = torch::lazy::MHash(static_cast<uint32_t>(at::aten::layer_norm), eps);\<newline>'' @
          ''        torch::lazy::hash_t dag_hash = torch::lazy::OperandHashes({lazy_input.GetIrValue(), lazy_weight ? lazy_weight.GetIrValue() : torch::lazy::Value(), lazy_bias ? lazy_bias.GetIrValue() : torch::lazy::Value()}, node_hash);\<newline>'' @
          ''        \<newline>'' @
          ''        auto shape_cache = torch::lazy::GetShapeCache();\<newline>'' @
          ''        auto cached_shapes = shape_cache->Get(dag_hash);\<newline>'' @
          ''        if (cached_shapes == nullptr) {\<newline>'' @
          ''            cached_shapes = shape_cache->Add(dag_hash, std::make_shared<std::vector<Shape>>(torch_lazy_tensors::ir::ops::compute_shape_layer_norm(input, weight, bias, eps)));\<newline>'' @
          ''\<newline>'' @
          ''        }\<newline>'' @
          ''        auto& shapes = *cached_shapes;\<newline>'' @
          ''        TORCH_INTERNAL_ASSERT(shapes.size() == 1);\<newline>'' @
          ''\<newline>'' @
          ''        auto node = torch::lazy::MakeNode<ir::ops::LayerNorm>(lazy_input.GetIrValue(),\<newline>'' @
          ''                              lazy_weight ? c10::make_optional(lazy_weight.GetIrValue()) : c10::nullopt,\<newline>'' @
          ''                              lazy_bias ? c10::make_optional(lazy_bias.GetIrValue()) : c10::nullopt,\<newline>'' @
          ''                              eps,\<newline>'' @
          ''                              node_hash,\<newline>'' @
          ''                              dag_hash,\<newline>'' @
          ''                                                                                      std::move(shapes));\<newline>'' @
          ''        auto result = torch::lazy::CreateAtenFromLtcTensor(torch::lazy::LazyTensor::Create(std::move(node), lazy_input.GetDevice()));\<newline>'' @
          ''        return result;\<newline>'' @
          ''    };\<newline>'' @
          ''\<newline>'' @
          ''    '']\<close>
    by simp
  from th idents have b:
    "''torch::lazy::hash_t node_hash = torch::lazy::MHash(static_cast<uint32_t>(at::aten::add), alpha, beta);'' \<noteq>
     ''torch::lazy::hash_t node_hash = torch::lazy::MHash(static_cast<uint32_t>(at::aten::add), beta, alpha);''"
    by simp
  from th idents have d:
    "''torch::lazy::hash_t dag_hash = torch::lazy::OperandHashes({lazy_self.GetIrValue(), lazy_other.GetIrValue()}, node_hash);'' \<noteq>
     ''torch::lazy::hash_t dag_hash = torch::lazy::OperandHashes({lazy_other.GetIrValue(), lazy_self.GetIrValue()}, node_hash);''"
    by (simp add: valueT_def)
  from a b d show ?thesis by blast
qed

text \<open>
  Claim C2 as stated fails: \<open>other\<close> of \<open>mul\<close> is a value-type argument, with a
  bridge-value form of its own, but being a promoted scalar it is absent from the emitted
  \<open>dag_hash\<close>; and declaring the two value arguments in the other order leaves both
  hash lines as they were, although the rest of the text changes.
\<close>

theorem dag_hash_skips_promoted_scalar_counterexample:
  \<open>filter (\<lambda>t. isValueType sample_ext (type t)) (all_types (func op_mul_scalar)) =
     [\<lparr>name = ''self'', type = valueT\<rparr>, \<lparr>name = ''other'', type = valueT\<rparr>] \<and>
   lazy_value_string_from_optionals sample_ext \<lparr>name = ''other'', type = valueT\<rparr> =
     Inr (Some ''lazy_other.GetIrValue()'') \<and>
   GenLazyNativeFuncDefinition_call sample_ext ''LazyNativeFunctions'' ''ts''
      ''torch::lazy::LazyTensor'' op_mul_scalar =
     Inr [''    at::Tensor LazyNativeFunctions::mul() {\<newline>'' @
          ''        TORCH_LAZY_FN_COUNTER("lazy::");\<newline>'' @
          ''        auto device = torch::lazy::GetBackendDevice(self, other);\<newline>'' @
          ''        torch::lazy::LazyTensor lazy_self = torch::lazy::GetLtcTensorOrCreateForWrappedNumber(self, *device);\<newline>'' @
          ''        torch::lazy::hash_t node_hash = torch::lazy::MHash(static_cast<uint32_t>(at::aten::mul));\<newline>'' @
          ''        torch::lazy::hash_t dag_hash = torch::lazy::OperandHashes({lazy_self.GetIrValue()}, node_hash);\<newline>'' @
          ''        \<newline>'' @
          ''        auto shape_cache = torch::lazy::GetShapeCache();\<newline>'' @
          ''        auto cached_shapes = shape_cache->Get(dag_hash);\<newline>'' @
          ''        if (cached_shapes == nullptr) {\<newline>'' @
          ''            cached_shapes = shape_cache->Add(dag_hash, std::make_shared<std::vector<Shape>>(torch_lazy_tensors::ir::ops::compute_shape_mul(self, other)));\<newline>'' @
          ''\<newline>'' @
          ''        }\<newline>'' @
          ''        auto& shapes = *cached_shapes;\<newline>'' @
          ''        TORCH_INTERNAL_ASSERT(shapes.size() == 1);\<newline>'' @
          ''\<newline>'' @
          ''        auto node = torch::lazy::MakeNode<ir::ops::MulScalar>(lazy_self.GetIrValue(),\<newline>'' @
          ''                              torch::lazy::LazyGraphExecutor::Get()->GetIrValueForScalarFromCodegen(other),\<newline>'' @
          ''                              node_hash,\<newline>'' @
          ''                              dag_hash,\<newline>'' @
          ''                                                                                      std::move(shapes));\<newline>'' @
          ''        auto result = torch::lazy::CreateAtenFromLtcTensor(torch::lazy::LazyTensor::Create(std::move(node), lazy_self.GetDevice()));\<newline>'' @
          ''        return result;\<newline>'' @
          ''    };\<newline>'' @
          ''\<newline>'' @
          ''    ''] \<and>
   GenLazyNativeFuncDefinition_call sample_ext ''LazyNativeFunctions'' ''ts''
      ''torch::lazy::LazyTensor''
      (op_mul_scalar\<lparr>func := (func op_mul_scalar)
        \<lparr>all_types := [\<lparr>name = ''other'', type = valueT\<rparr>, \<lparr>name = ''self'', type = valueT\<rparr>]\<rparr>\<rparr>) =
     Inr [''    at::Tensor LazyNativeFunctions::mul() {\<newline>'' @
          ''        TORCH_LAZY_FN_COUNTER("lazy::");\<newline>'' @
          ''        auto device = torch::lazy::GetBackendDevice(other, self);\<newline>'' @
          ''        torch::lazy::LazyTensor lazy_self = torch::lazy::GetLtcTensorOrCreateForWrappedNumber(self, *device);\<newline>'' @
          ''        torch::lazy::hash_t node_hash = torch::lazy::MHash(static_cast<uint32_t>(at::aten::mul));\<newline>'' @
          ''        torch::lazy::hash_t dag_hash = torch::lazy::OperandHashes({lazy_self.GetIrValue()}, node_hash);\<newline>'' @
          ''        \<newline>'' @
          ''        auto shape_cache = torch::lazy::GetShapeCache();\<newline>'' @
          ''        auto cached_shapes = shape_cache->Get(dag_hash);\<newline>'' @
          ''        if (cached_shapes == nullptr) {\<newline>'' @
          ''            cached_shapes = shape_cache->Add(dag_hash, std::make_shared<std::vector<Shape>>(torch_lazy_tensors::ir::ops::compute_shape_mul(other, self)));\<newline>'' @
          ''\<newline>'' @
          ''        }\<newline>'' @
          ''        auto& shapes = *cached_shapes;\<newline>'' @
          ''        TORCH_INTERNAL_ASSERT(shapes.size() == 1);\<newline>'' @
          ''\<newline>'' @
          ''        auto node = torch::lazy::MakeNode<ir::ops::MulScalar>(torch::lazy::LazyGraphExecutor::Get()->GetIrValueForScalarFromCodegen(other),\<newline>'' @
          ''                              lazy_self.GetIrValue(),\<newline>'' @
          ''                              node_hash,\<newline>'' @
          ''                              dag_hash,\<newline>'' @
          ''                                                                                      std::move(shapes));\<newline>'' @
          ''        auto result = torch::lazy::CreateAtenFromLtcTensor(torch::lazy::LazyTensor::Create(std::move(node), lazy_other.GetDevice()));\<newline>'' @
          ''        return result;\<newline>'' @
          ''    };\<newline>'' @
          ''\<newline>'' @
          ''    '']\<close>
proof -
  have 1: "filter (\<lambda>t. isValueType sample_ext (type t)) (all_types (func op_mul_scalar)) =
     [\<lparr>name = ''self'', type = valueT\<rparr>, \<lparr>name = ''other'', type = valueT\<rparr>]"
    by (simp add: op_mul_scalar_def sample_ext_def valueT_def)
  have 2: "lazy_value_string_from_optionals sample_ext \<lparr>name = ''other'', type = valueT\<rparr> =
     Inr (Some ''lazy_other.GetIrValue()'')"
    by (simp add: lazy_value_string_from_optionals_def sample_ext_def valueT_def)
  have 3: \<open>GenLazyNativeFuncDefinition_call sample_ext ''LazyNativeFunctions'' ''ts''
      ''torch::lazy::LazyTensor'' op_mul_scalar =
     Inr [''    at::Tensor LazyNativeFunctions::mul() {\<newline>'' @
          ''        TORCH_LAZY_FN_COUNTER("lazy::");\<newline>'' @
          ''        auto device = torch::lazy::GetBackendDevice(self, other);\<newline>'' @
          ''        torch::lazy::LazyTensor lazy_self = torch::lazy::GetLtcTensorOrCreateForWrappedNumber(self, *device);\<newline>'' @
          ''        torch::lazy::hash_t node_hash = torch::lazy::MHash(static_cast<uint32_t>(at::aten::mul));\<newline>'' @
          ''        torch::lazy::hash_t dag_hash = torch::lazy::OperandHashes({lazy_self.GetIrValue()}, node_hash);\<newline>'' @
          ''        \<newline>'' @
          ''        auto shape_cache = torch::lazy::GetShapeCache();\<newline>'' @
          ''        auto cached_shapes = shape_cache->Get(dag_hash);\<newline>'' @
          ''        if (cached_shapes == nullptr) {\<newline>'' @
          ''            cached_shapes = shape_cache->Add(dag_hash, std::make_shared<std::vector<Shape>>(torch_lazy_tensors::ir::ops::compute_shape_mul(self, other)));\<newline>'' @
          ''\<newline>'' @
          ''        }\<newline>'' @
          ''        auto& shapes = *cached_shapes;\<newline>'' @
          ''        TORCH_INTERNAL_ASSERT(shapes.size() == 1);\<newline>'' @
          ''\<newline>'' @
          ''        auto node = torch::lazy::MakeNode<ir::ops::MulScalar>(lazy_self.GetIrValue(),\<newline>'' @
          ''                              torch::lazy::LazyGraphExecutor::Get()->GetIrValueForScalarFromCodegen(other),\<newline>'' @
          ''                              node_hash,\<newline>'' @
          ''                              dag_hash,\<newline>'' @
          ''                                                                                      std::move(shapes));\<newline>'' @
          ''        auto result = torch::lazy::CreateAtenFromLtcTensor(torch::lazy::LazyTensor::Create(std::move(node), lazy_self.GetDevice()));\<newline>'' @
          ''        return result;\<newline>'' @
          ''    };\<newline>'' @
          ''\<newline>'' @
          ''    '']\<close>
    unfolding GenLazyNativeFuncDefinition_call_def Let_def
    by (simp add: value_types_def scalar_types_def lazy_tensor_decls_def node_ctor_inputs_def
          node_ctor_arg_rvalue_string_def ir_values_def hash_operands_def
          lazy_value_string_from_optionals_def dag_hash_def join_opt_def bridge_str_def
          bridge_single_def bridge_tuple_def bridge_inplace_def dispatch_text_def
          get_device_str_def node_hash_def hashes_def node_str_def cached_shape_inference_def
          shapes_body_def meta_out_def this_shape_def shape_call_def call_suffix_def
          ComputeShapeSignature_init_def sample_ext_def valueT_def op_mul_scalar_def
          str_nat.simps[of "Suc 0"] digit_char_def)
  have 4: \<open>GenLazyNativeFuncDefinition_call sample_ext ''LazyNativeFunctions'' ''ts''
      ''torch::lazy::LazyTensor''
      (op_mul_scalar\<lparr>func := (func op_mul_scalar)
        \<lparr>all_types := [\<lparr>name = ''other'', type = valueT\<rparr>, \<lparr>name = ''self'', type = valueT\<rparr>]\<rparr>\<rparr>) =
     Inr [''    at::Tensor LazyNativeFunctions::mul() {\<newline>'' @
          ''        TORCH_LAZY_FN_COUNTER("lazy::");\<newline>'' @
          ''        auto device = torch::lazy::GetBackendDevice(other, self);\<newline>'' @
          ''        torch::lazy::LazyTensor lazy_self = torch::lazy::GetLtcTensorOrCreateForWrappedNumber(self, *device);\<newline>'' @
          ''        torch::lazy::hash_t node_hash = torch::lazy::MHash(static_cast<uint32_t>(at::aten::mul));\<newline>'' @
          ''        torch::lazy::hash_t dag_hash = torch::lazy::OperandHashes({lazy_self.GetIrValue()}, node_hash);\<newline>'' @
          ''        \<newline>'' @
          ''        auto shape_cache = torch::lazy::GetShapeCache();\<newline>'' @
          ''        auto cached_shapes = shape_cache->Get(dag_hash);\<newline>'' @
          ''        if (cached_shapes == nullptr) {\<newline>'' @
          ''            cached_shapes = shape_cache->Add(dag_hash, std::make_shared<std::vector<Shape>>(torch_lazy_tensors::ir::ops::compute_shape_mul(other, self)));\<newline>'' @
          ''\<newline>'' @
          ''        }\<newline>'' @
          ''        auto& shapes = *cached_shapes;\<newline>'' @
          ''        TORCH_INTERNAL_ASSERT(shapes.size() == 1);\<newline>'' @
          ''\<newline>'' @
          ''        auto node = torch::lazy::MakeNode<ir::ops::MulScalar>(torch::lazy::LazyGraphExecutor::Get()->GetIrValueForScalarFromCodegen(other),\<newline>'' @
          ''                              lazy_self.GetIrValue(),\<newline>'' @
          ''                              node_hash,\<newline>'' @
          ''                              dag_hash,\<newline>'' @
          ''                                                                                      std::move(shapes));\<newline>'' @
          ''        auto result = torch::lazy::CreateAtenFromLtcTensor(torch::lazy::LazyTensor::Create(std::move(node), lazy_other.GetDevice()));\<newline>'' @
          ''        return result;\<newline>'' @
          ''    };\<newline>'' @
          ''\<newline>'' @
          ''    '']\<close>
    unfolding GenLazyNativeFuncDefinition_call_def Let_def
    by (simp add: value_types_def scalar_types_def lazy_tensor_decls_def node_ctor_inputs_def
          node_ctor_arg_rvalue_string_def ir_values_def hash_operands_def
          lazy_value_string_from_optionals_def dag_hash_def join_opt_def bridge_str_def
          bridge_single_def bridge_tuple_def bridge_inplace_def dispatch_text_def
          get_device_str_def node_hash_def hashes_def node_str_def cached_shape_inference_def
          shapes_body_def meta_out_def this_shape_def shape_call_def call_suffix_def
          ComputeShapeSignature_init_def sample_ext_def valueT_def op_mul_scalar_def
          str_nat.simps[of "Suc 0"] digit_char_def)
  from 1 2 3 4 show ?thesis by blast
qed

end
